theory Spec2Isabelle
  imports Main "HOL-Library.AList"
begin

section \<open>Python values, exceptions and the outside world\<close>

text \<open>
  The two programs, \<^verbatim>\<open>p3/apps/moduleQuery.py\<close> and \<^verbatim>\<open>p3/apps/checkActivation.py\<close>,
  are Python 2 code (\<^verbatim>\<open>str.translate(None, ...)\<close>, \<^verbatim>\<open>dict.iteritems\<close>). Values that come
  out of the database and out of \<^verbatim>\<open>json.loads\<close> are dynamically typed, so they are
  one datatype; a dictionary is an association list whose keys are distinct. Numbers
  are integers: they only matter through their truth value and their formatting.
\<close>

datatype pyval =
    PNone
  | PBool bool
  | PInt int
  | PStr string
  | PList "pyval list"
  | PDict "(pyval \<times> pyval) list"

text \<open>
  An exception is either \<^verbatim>\<open>KeyboardInterrupt\<close>, which is not an \<^verbatim>\<open>Exception\<close>, or an
  instance of \<^verbatim>\<open>Exception\<close> with its class, its \<^verbatim>\<open>str()\<close> and the attribute
  \<^verbatim>\<open>user_msg\<close> when one has been set on it.
\<close>

datatype exc_class =
  BareException | KeyError | TypeError | AttributeError | ValueError
  | UnboundLocalError | LibraryError

datatype exn =
    KeyboardInterrupt
  | Exception exc_class string "string option"

type_synonym conn = nat

text \<open>
  Everything the programs do to the outside is an event of a trace, in the order it
  happens. The database and the shell are oracles that see the trace so far, so their
  answers may change from one call to the next.
\<close>

datatype event =
    Connect
  | Sleep nat
  | Execute conn string "string list"
  | System string
  | Stdout string
  | Stderr string

record wrapper =
  replace_whitespace :: bool
  width :: int
  initial_indent :: string
  subsequent_indent :: string

text \<open>
  The environment of a run: the module constants read from the process environment
  (\<^verbatim>\<open>DEBUG\<close>, the host of \<^verbatim>\<open>SQL_DSN\<close>), the external collaborators
  (\<^verbatim>\<open>MySQLdb.connect\<close>; cursor, \<^verbatim>\<open>execute\<close> and \<^verbatim>\<open>fetchall\<close> with the column names of
  \<^verbatim>\<open>cursor.description\<close>; \<^verbatim>\<open>os.system\<close>; the terminal: the inner function
  \<^verbatim>\<open>ioctl_GWINSZ\<close>, which answers \<^verbatim>\<open>None\<close> on any failure, opening the controlling
  terminal, \<^verbatim>\<open>os.environ\<close>), and the library functions that are used but not modelled
  (\<^verbatim>\<open>int\<close> of a string, \<^verbatim>\<open>json.loads\<close>, the line breaking of \<^verbatim>\<open>TextWrapper.fill\<close> for a
  positive width, \<^verbatim>\<open>format\<close> and \<^verbatim>\<open>repr\<close> of a value that is not a string,
  \<^verbatim>\<open>traceback.format_exc\<close>, and the order in which a Python 2 dictionary with the given
  keys is iterated).
\<close>

record env =
  DEBUG :: bool
  SQL_DSN_host :: string
  db_connect :: "event list \<Rightarrow> exn + conn"
  db_execute :: "event list \<Rightarrow> conn \<Rightarrow> string \<Rightarrow> string list \<Rightarrow> exn + (string list \<times> pyval list list)"
  os_system :: "event list \<Rightarrow> string \<Rightarrow> int"
  ioctl_GWINSZ :: "int \<Rightarrow> (int \<times> int) option"
  open_ctermid :: "int option"
  environ :: "string \<Rightarrow> string option"
  py_int :: "string \<Rightarrow> exn + int"
  json_loads :: "pyval \<Rightarrow> exn + pyval"
  wrap_fill :: "wrapper \<Rightarrow> string \<Rightarrow> string"
  py_format :: "pyval \<Rightarrow> string \<Rightarrow> string"
  py_repr :: "pyval \<Rightarrow> string"
  format_exc :: "exn \<Rightarrow> string"
  dict_order :: "pyval list \<Rightarrow> pyval list"

definition MAX_ATTEMPTS :: nat where
  "MAX_ATTEMPTS = 3"

definition CONNECTION_WAIT :: nat where
  "CONNECTION_WAIT = 2"

definition NL :: string where
  "NL = [CHR 0x0A]"

section \<open>Strings\<close>

text \<open>\<^verbatim>\<open>sep.join(xs)\<close>.\<close>

fun str_join :: "string \<Rightarrow> string list \<Rightarrow> string" where
  "str_join sep [] = []"
| "str_join sep [x] = x"
| "str_join sep (x # y # ys) = x @ sep @ str_join sep (y # ys)"

text \<open>\<^verbatim>\<open>str(b)\<close> of a Boolean.\<close>

definition str_bool :: "bool \<Rightarrow> string" where
  "str_bool b = (if b then ''True'' else ''False'')"

section \<open>The query builder\<close>

text \<open>\<^verbatim>\<open>term = '%{}%'.format(search)\<close>\<close>

definition like_term :: "string \<Rightarrow> string" where
  "like_term search = ''%'' @ search @ ''%''"

text \<open>\<^verbatim>\<open>format_strings = ','.join(['%s'] * len(build_stack_names))\<close>\<close>

definition format_strings :: "string list \<Rightarrow> string" where
  "format_strings build_stack_names =
     str_join '','' (replicate (length build_stack_names) ''%s'')"

text \<open>
  The three SQL templates: each is the triple-quoted literal of the source with its
  newlines deleted by \<^verbatim>\<open>translate(None, "\n")\<close>, cut at its one replacement field
  \<^verbatim>\<open>{in_clause}\<close>, which \<^verbatim>\<open>format\<close> fills.
\<close>

definition name_sql_head :: string where
  "name_sql_head = ''        select            br.*        from            build_report br        where            br.build_name like %s and            br.build_stack_name in (''"

definition name_sql_tail :: string where
  "name_sql_tail = '')        order by            app_name, br.build_order    ''"

definition name_sql :: "string \<Rightarrow> string" where
  "name_sql in_clause = name_sql_head @ in_clause @ name_sql_tail"

definition fulltext_sql_head :: string where
  "fulltext_sql_head = ''            select                br.*            from                build_report br            where                br.report_text like %s and                br.build_stack_name in (''"

definition fulltext_sql_tail :: string where
  "fulltext_sql_tail = '')            order by                app_name, br.build_order        ''"

definition fulltext_sql :: "string \<Rightarrow> string" where
  "fulltext_sql in_clause = fulltext_sql_head @ in_clause @ fulltext_sql_tail"

definition activation_sql_head :: string where
  "activation_sql_head = ''        select            b.name, b.activation        from            build b                inner join build_stack bs on bs.id = b.build_stack_id        where            b.name like %s and            bs.name in (''"

definition activation_sql_tail :: string where
  "activation_sql_tail = '')    ''"

definition activation_sql :: "string \<Rightarrow> string" where
  "activation_sql in_clause = activation_sql_head @ in_clause @ activation_sql_tail"

text \<open>
  The template of \<^verbatim>\<open>fetchBuildReports\<close>: the name query, replaced by the full-text query
  when \<^verbatim>\<open>fulltext\<close> is set.
\<close>

definition report_sql :: "bool \<Rightarrow> string list \<Rightarrow> string" where
  "report_sql fulltext build_stack_names =
     (let sql = name_sql (format_strings build_stack_names)
      in if fulltext then fulltext_sql (format_strings build_stack_names) else sql)"

definition build_sql :: "string list \<Rightarrow> string" where
  "build_sql build_stack_names = activation_sql (format_strings build_stack_names)"

text \<open>\<^verbatim>\<open>wheres = [term]; wheres.extend(build_stack_names)\<close>\<close>

definition wheres_of :: "string \<Rightarrow> string list \<Rightarrow> string list" where
  "wheres_of search build_stack_names = [like_term search] @ build_stack_names"

text \<open>
  Reading a template back: the number of \<^verbatim>\<open>%s\<close> placeholders of a text, and the text
  between the first opening parenthesis and the closing one that follows it.
\<close>

fun placeholders :: "string \<Rightarrow> nat" where
  "placeholders (a # b # cs) =
     (if a = CHR ''%'' \<and> b = CHR ''s'' then Suc (placeholders cs) else placeholders (b # cs))"
| "placeholders _ = 0"

definition in_clause_of :: "string \<Rightarrow> string" where
  "in_clause_of sql =
     takeWhile (\<lambda>c. c \<noteq> CHR '')'') (drop 1 (dropWhile (\<lambda>c. c \<noteq> CHR ''('') sql))"

section \<open>The connection manager\<close>

text \<open>
  The retry loop of both programs. The loop variables are \<^verbatim>\<open>connection\<close> and
  \<^verbatim>\<open>connection_attempts\<close>; \<^verbatim>\<open>except Exception\<close> does not catch a keyboard interrupt,
  which leaves the loop.
\<close>

function connect_loop ::
  "env \<Rightarrow> conn option \<Rightarrow> nat \<Rightarrow> event list \<Rightarrow> (exn + conn option) \<times> event list" where
  "connect_loop env connection connection_attempts tr =
     (if connection = None \<and> connection_attempts < MAX_ATTEMPTS then
        (case db_connect env tr of
           Inr c \<Rightarrow> connect_loop env (Some c) connection_attempts (tr @ [Connect])
         | Inl KeyboardInterrupt \<Rightarrow> (Inl KeyboardInterrupt, tr @ [Connect])
         | Inl (Exception cl s um) \<Rightarrow>
             connect_loop env None (connection_attempts + 1)
               (tr @ [Connect]
                   @ (if DEBUG env
                      then [Stderr (''Connection error '' @ s @ NL
                                    @ format_exc env (Exception cl s um) @ NL)]
                      else [])
                   @ [Sleep CONNECTION_WAIT]))
      else (Inr connection, tr))"
  by pat_completeness auto
termination
  by (relation "measure (\<lambda>(env, connection, connection_attempts, tr).
        2 * (MAX_ATTEMPTS - connection_attempts) + (if connection = None then 1 else 0))")
     auto

declare connect_loop.simps [simp del]

text \<open>
  The loop and the test after it: without a connection, an \<^verbatim>\<open>Exception()\<close> is raised
  whose \<^verbatim>\<open>user_msg\<close> names the host.
\<close>

definition connect_db :: "env \<Rightarrow> event list \<Rightarrow> (exn + conn) \<times> event list" where
  "connect_db env tr =
     (case connect_loop env None 0 tr of
        (Inl e, tr') \<Rightarrow> (Inl e, tr')
      | (Inr None, tr') \<Rightarrow>
          (Inl (Exception BareException [] (Some (''Unable to connect to '' @ SQL_DSN_host env))), tr')
      | (Inr (Some c), tr') \<Rightarrow> (Inr c, tr'))"

text \<open>
  \<^verbatim>\<open>dict(zip(cols, row))\<close>: a later value of a repeated column replaces the earlier one.
\<close>

definition row_dict :: "string list \<Rightarrow> pyval list \<Rightarrow> pyval" where
  "row_dict cols row =
     PDict (fold (\<lambda>(k, v) d. AList.update (PStr k) v d) (zip cols row) [])"

text \<open>
  The rest of a fetch, shared by both programs: the cursor executes the template with
  the parameters apart, and the rows become dictionaries.
\<close>

definition run_query ::
  "env \<Rightarrow> string \<Rightarrow> string list \<Rightarrow> event list \<Rightarrow> (exn + pyval list) \<times> event list" where
  "run_query env sql wheres tr =
     (case connect_db env tr of
        (Inl e, tr1) \<Rightarrow> (Inl e, tr1)
      | (Inr connection, tr1) \<Rightarrow>
          (let tr2 = tr1 @ (if DEBUG env
                            then [Stdout (py_repr env (PList (map PStr wheres)) @ NL)]
                            else [])
           in case db_execute env tr2 connection sql wheres of
                Inl e \<Rightarrow> (Inl e, tr2 @ [Execute connection sql wheres])
              | Inr (desc, rows) \<Rightarrow>
                  (Inr (map (row_dict desc) rows), tr2 @ [Execute connection sql wheres])))"

definition fetchBuildReports ::
  "env \<Rightarrow> string \<Rightarrow> string list \<Rightarrow> bool \<Rightarrow> event list \<Rightarrow> (exn + pyval list) \<times> event list" where
  "fetchBuildReports env search build_stack_names fulltext tr =
     (let tr0 = tr @ (if DEBUG env
                      then [Stdout (''search '' @ search @ '', build_stack_names ''
                                    @ str_join '','' build_stack_names
                                    @ '', fulltext '' @ str_bool fulltext @ NL)]
                      else [])
      in run_query env (report_sql fulltext build_stack_names)
           (wheres_of search build_stack_names) tr0)"

definition fetchBuildActivation ::
  "env \<Rightarrow> string \<Rightarrow> string list \<Rightarrow> event list \<Rightarrow> (exn + pyval list) \<times> event list" where
  "fetchBuildActivation env search build_stack_names tr =
     (let tr0 = tr @ (if DEBUG env
                      then [Stdout (''search '' @ search @ '', build_stack_names ''
                                    @ str_join '','' build_stack_names @ NL)]
                      else [])
      in run_query env (build_sql build_stack_names)
           (wheres_of search build_stack_names) tr0)"

section \<open>Python operations on values\<close>

definition try_bind :: "exn + 'a \<Rightarrow> ('a \<Rightarrow> exn + 'b) \<Rightarrow> exn + 'b" where
  "try_bind m f = (case m of Inl e \<Rightarrow> Inl e | Inr x \<Rightarrow> f x)"

definition quoted :: "string \<Rightarrow> string" where
  "quoted s = [CHR 0x27] @ s @ [CHR 0x27]"

definition digit :: "nat \<Rightarrow> char" where
  "digit n = char_of (48 + n)"

fun str_nat :: "nat \<Rightarrow> string" where
  "str_nat n = (if n < 10 then [digit n] else str_nat (n div 10) @ [digit (n mod 10)])"

definition str_int :: "int \<Rightarrow> string" where
  "str_int i = (if i < 0 then ''-'' @ str_nat (nat (- i)) else str_nat (nat i))"

fun truthy :: "pyval \<Rightarrow> bool" where
  "truthy PNone = False"
| "truthy (PBool b) = b"
| "truthy (PInt i) = (i \<noteq> 0)"
| "truthy (PStr s) = (s \<noteq> [])"
| "truthy (PList xs) = (xs \<noteq> [])"
| "truthy (PDict d) = (d \<noteq> [])"

fun type_name :: "pyval \<Rightarrow> string" where
  "type_name PNone = ''NoneType''"
| "type_name (PBool b) = ''bool''"
| "type_name (PInt i) = ''int''"
| "type_name (PStr s) = ''unicode''"
| "type_name (PList xs) = ''list''"
| "type_name (PDict d) = ''dict''"

definition no_attribute :: "exc_class \<Rightarrow> pyval \<Rightarrow> string \<Rightarrow> exn" where
  "no_attribute cl v a =
     Exception cl (quoted (type_name v) @ '' object has no attribute '' @ quoted a) None"

text \<open>\<^verbatim>\<open>d[k]\<close> on a dictionary, and \<^verbatim>\<open>v[k]\<close> on any value, for a string key.\<close>

definition dict_get :: "(pyval \<times> pyval) list \<Rightarrow> string \<Rightarrow> exn + pyval" where
  "dict_get d k =
     (case map_of d (PStr k) of
        Some v \<Rightarrow> Inr v
      | None \<Rightarrow> Inl (Exception KeyError (quoted k) None))"

definition not_subscriptable :: "pyval \<Rightarrow> exn" where
  "not_subscriptable v =
     (case v of
        PStr s \<Rightarrow> Exception TypeError ''string indices must be integers'' None
      | PList xs \<Rightarrow> Exception TypeError ''list indices must be integers, not str'' None
      | _ \<Rightarrow> no_attribute TypeError v ''__getitem__'')"

definition subscript :: "pyval \<Rightarrow> string \<Rightarrow> exn + pyval" where
  "subscript v k = (case v of PDict d \<Rightarrow> dict_get d k | _ \<Rightarrow> Inl (not_subscriptable v))"

text \<open>A dictionary key must be hashable.\<close>

definition hashable :: "pyval \<Rightarrow> exn + pyval" where
  "hashable v =
     (case v of
        PList xs \<Rightarrow> Inl (Exception TypeError (''unhashable type: '' @ quoted ''list'') None)
      | PDict d \<Rightarrow> Inl (Exception TypeError (''unhashable type: '' @ quoted ''dict'') None)
      | _ \<Rightarrow> Inr v)"

text \<open>
  \<^verbatim>\<open>unicode.strip()\<close>, on the code points below 256, and \<^verbatim>\<open>v.strip()\<close> on any value.
\<close>

definition is_space :: "char \<Rightarrow> bool" where
  "is_space c = (of_char c \<in> {9, 10, 11, 12, 13, 28, 29, 30, 31, 32, 133, 160 :: nat})"

definition strip :: "string \<Rightarrow> string" where
  "strip s = rev (dropWhile is_space (rev (dropWhile is_space s)))"

definition py_strip :: "pyval \<Rightarrow> exn + string" where
  "py_strip v = (case v of PStr s \<Rightarrow> Inr (strip s) | _ \<Rightarrow> Inl (no_attribute AttributeError v ''strip''))"

text \<open>\<^verbatim>\<open>v.replace("\n", "\n      ")\<close>\<close>

definition reindent :: "string \<Rightarrow> string" where
  "reindent s = concat (map (\<lambda>c. if c = CHR 0x0A then NL @ ''      '' else [c]) s)"

definition py_reindent :: "pyval \<Rightarrow> exn + string" where
  "py_reindent v =
     (case v of PStr s \<Rightarrow> Inr (reindent s) | _ \<Rightarrow> Inl (no_attribute AttributeError v ''replace''))"

text \<open>
  \<^verbatim>\<open>" ".join(v)\<close>: the items of a list must be strings; a string is the sequence of its
  characters and a dictionary the sequence of its keys; nothing else can be joined.
\<close>

fun join_items :: "nat \<Rightarrow> pyval list \<Rightarrow> exn + string list" where
  "join_items i [] = Inr []"
| "join_items i (PStr s # vs) = try_bind (join_items (i + 1) vs) (\<lambda>ss. Inr (s # ss))"
| "join_items i (v # vs) =
     Inl (Exception TypeError (''sequence item '' @ str_nat i @ '': expected string, ''
                               @ type_name v @ '' found'') None)"

definition py_join :: "env \<Rightarrow> string \<Rightarrow> pyval \<Rightarrow> exn + string" where
  "py_join env sep v =
     (case v of
        PList xs \<Rightarrow> try_bind (join_items 0 xs) (\<lambda>ss. Inr (str_join sep ss))
      | PStr s \<Rightarrow> Inr (str_join sep (map (\<lambda>c. [c]) s))
      | PDict d \<Rightarrow>
          try_bind (join_items 0 (dict_order env (map fst d))) (\<lambda>ss. Inr (str_join sep ss))
      | _ \<Rightarrow> Inl (Exception TypeError ''can only join an iterable'' None))"

text \<open>
  A value in a replacement field: a string stands for itself, padded on the right with
  dots to 40 columns under the format \<^verbatim>\<open>.<40\<close>.
\<close>

definition ljust_dots :: "string \<Rightarrow> string" where
  "ljust_dots s = s @ replicate (40 - length s) CHR ''.''"

definition fmt :: "env \<Rightarrow> pyval \<Rightarrow> string" where
  "fmt env v = (case v of PStr s \<Rightarrow> s | _ \<Rightarrow> py_format env v [])"

definition fmt_dots :: "env \<Rightarrow> pyval \<Rightarrow> string" where
  "fmt_dots env v = (case v of PStr s \<Rightarrow> ljust_dots s | _ \<Rightarrow> py_format env v ''.<40'')"

text \<open>
  \<^verbatim>\<open>TextWrapper.fill\<close>: the text must have the string methods, and the width must be
  positive, whatever the text.
\<close>

definition fill :: "env \<Rightarrow> wrapper \<Rightarrow> pyval \<Rightarrow> exn + string" where
  "fill env w v =
     (case v of
        PStr s \<Rightarrow>
          if width w \<le> 0
          then Inl (Exception ValueError (''invalid width '' @ str_int (width w) @ '' (must be > 0)'') None)
          else Inr (wrap_fill env w s)
      | _ \<Rightarrow> Inl (no_attribute AttributeError v ''expandtabs''))"

text \<open>Setting \<^verbatim>\<open>user_msg\<close> on a caught \<^verbatim>\<open>Exception\<close> and raising it again.\<close>

definition with_user_msg :: "string \<Rightarrow> exn \<Rightarrow> exn" where
  "with_user_msg msg e =
     (case e of KeyboardInterrupt \<Rightarrow> KeyboardInterrupt | Exception cl s um \<Rightarrow> Exception cl s (Some msg))"

section \<open>The terminal width\<close>

definition getTerminalSize :: "env \<Rightarrow> exn + int" where
  "getTerminalSize env =
     (let cr = (case ioctl_GWINSZ env 0 of
                  Some c \<Rightarrow> Some c
                | None \<Rightarrow> (case ioctl_GWINSZ env 1 of Some c \<Rightarrow> Some c | None \<Rightarrow> ioctl_GWINSZ env 2));
          cr = (case cr of
                  Some c \<Rightarrow> Some c
                | None \<Rightarrow> (case open_ctermid env of None \<Rightarrow> None | Some fd \<Rightarrow> ioctl_GWINSZ env fd))
      in case cr of
           Some (lines, columns) \<Rightarrow> Inr columns
         | None \<Rightarrow> (case environ env ''COLUMNS'' of None \<Rightarrow> Inr 80 | Some s \<Rightarrow> py_int env s))"

section \<open>The report renderer\<close>

definition UNPARSABLE :: string where
  "UNPARSABLE = ''Unable to parse the build report for this module.  Please report to rchelp.''"

text \<open>
  The \<^verbatim>\<open>try\<close> block at the head of both reports: any \<^verbatim>\<open>Exception\<close> of
  \<^verbatim>\<open>json.loads(buildreport["report_text"])\<close> gets the user message and is raised again.
\<close>

definition load_report :: "env \<Rightarrow> pyval \<Rightarrow> event list \<Rightarrow> (exn + pyval) \<times> event list" where
  "load_report env buildreport tr =
     (case try_bind (subscript buildreport ''report_text'') (json_loads env) of
        Inl e \<Rightarrow> (Inl (with_user_msg UNPARSABLE e), tr)
      | Inr br \<Rightarrow> (Inr br, tr @ (if DEBUG env then [Stdout (py_repr env br @ NL)] else [])))"

definition TextWrapper :: "bool \<Rightarrow> int \<Rightarrow> nat \<Rightarrow> nat \<Rightarrow> wrapper" where
  "TextWrapper rw w i j =
     \<lparr>replace_whitespace = rw, width = w,
      initial_indent = replicate i CHR '' '', subsequent_indent = replicate j CHR '' ''\<rparr>"

text \<open>
  The test \<^verbatim>\<open>"comments" in br and br["comments"] and br["comments"].strip() != ""\<close>,
  which answers the comments when it holds.
\<close>

definition build_comments :: "(pyval \<times> pyval) list \<Rightarrow> exn + pyval option" where
  "build_comments d =
     (case map_of d (PStr ''comments'') of
        None \<Rightarrow> Inr None
      | Some c \<Rightarrow>
          if truthy c
          then try_bind (py_strip c) (\<lambda>s. if s \<noteq> [] then Inr (Some c) else Inr None)
          else Inr None)"

subsection \<open>The detail report\<close>

text \<open>
  The three optional parts of the detail report, each empty unless the report has what
  it shows: the run-time dependencies, the comments, and the activation note of the
  build stack.
\<close>

definition dependency_message :: "env \<Rightarrow> wrapper \<Rightarrow> (pyval \<times> pyval) list \<Rightarrow> exn + string" where
  "dependency_message env wrapper d =
     try_bind (dict_get d ''run_dependencies'') (\<lambda>run_dependencies.
       if truthy run_dependencies
       then try_bind (py_join env '' '' run_dependencies) (\<lambda>joined.
            try_bind (fill env wrapper (PStr joined)) (\<lambda>text.
            Inr (NL @ ''    This module also loads:'' @ NL @ text @ NL)))
       else Inr [])"

definition comments_message :: "env \<Rightarrow> wrapper \<Rightarrow> (pyval \<times> pyval) list \<Rightarrow> exn + string" where
  "comments_message env wrapper d =
     try_bind (build_comments d) (\<lambda>comments.
       case comments of
         None \<Rightarrow> Inr []
       | Some c \<Rightarrow>
           try_bind (fill env wrapper c) (\<lambda>text.
           Inr (NL @ ''    Build comments:'' @ NL @ text @ NL)))"

definition build_stack_activation_message ::
  "env \<Rightarrow> wrapper \<Rightarrow> (pyval \<times> pyval) list \<Rightarrow> exn + string" where
  "build_stack_activation_message env wrapper d =
     (case map_of d (PStr ''build_stack_activation'') of
        None \<Rightarrow> Inr []
      | Some a \<Rightarrow>
          if truthy a
          then try_bind (dict_get d ''build_stack'') (\<lambda>build_stack.
               try_bind (fill env wrapper a) (\<lambda>text.
               Inr (NL @ ''    '' @ fmt env build_stack @ '' activation:'' @ NL @ text @ NL)))
          else Inr [])"

text \<open>
  The text that \<^verbatim>\<open>printDetailReport\<close> prints for a parsed report \<^verbatim>\<open>br\<close>, or the
  exception that stops it. \<^verbatim>\<open>br["title"]\<close> is the first use of \<^verbatim>\<open>br\<close>, so anything
  but a dictionary fails there. The arguments of the last \<^verbatim>\<open>format\<close> are evaluated in
  the order in which they are written.
\<close>

definition detail_report :: "env \<Rightarrow> pyval \<Rightarrow> int \<Rightarrow> exn + string" where
  "detail_report env br terminalsize =
     (let width = terminalsize - 2;
          textmargin = 6;
          textwidth = width - int textmargin * 2;
          border = replicate (nat width) CHR ''-'';
          wrapper = TextWrapper False textwidth textmargin textmargin;
          descwrapper = TextWrapper True textwidth textmargin textmargin
      in case br of
           PDict d \<Rightarrow>
             try_bind (dict_get d ''title'') (\<lambda>app_name.
             try_bind (dependency_message env wrapper d) (\<lambda>dependencymessage.
             try_bind (comments_message env wrapper d) (\<lambda>commentsmessage.
             try_bind (build_stack_activation_message env wrapper d) (\<lambda>buildstackactivationmessage.
             try_bind (dict_get d ''name'') (\<lambda>build_name.
             try_bind (try_bind (dict_get d ''description'') (fill env descwrapper)) (\<lambda>descriptionlines.
             try_bind (try_bind (dict_get d ''activation'') py_reindent) (\<lambda>moduleloadlines.
             try_bind (dict_get d ''build_stack'') (\<lambda>build_stack.
             Inr (str_join NL
               [[],
                border,
                ''  '' @ fmt env app_name @ '' : '' @ fmt env build_name,
                border,
                ''    Build flavor: '' @ fmt env build_stack,
                ''    Description:'',
                descriptionlines,
                commentsmessage,
                ''    This module can be loaded as follows:'',
                ''      '' @ moduleloadlines,
                dependencymessage,
                buildstackactivationmessage,
                [],
                []])))))))))
         | _ \<Rightarrow> Inl (not_subscriptable br))"

definition printDetailReport ::
  "env \<Rightarrow> pyval \<Rightarrow> int \<Rightarrow> event list \<Rightarrow> (exn + unit) \<times> event list" where
  "printDetailReport env buildreport terminalsize tr =
     (let terminalsize = (if terminalsize = 0 then 80 else terminalsize)
      in case load_report env buildreport tr of
           (Inl e, tr1) \<Rightarrow> (Inl e, tr1)
         | (Inr br, tr1) \<Rightarrow>
             (case detail_report env br terminalsize of
                Inl e \<Rightarrow> (Inl e, tr1)
              | Inr report \<Rightarrow> (Inr (), tr1 @ [Stdout (report @ NL)])))"

subsection \<open>The consolidated report\<close>

text \<open>
  The local variables of \<^verbatim>\<open>printConsolidatedReport\<close> that outlive an iteration of its
  first loop: the dictionary \<^verbatim>\<open>apps\<close>, and the three names that the second loop reads
  as the first loop left them. Before the first iteration these three are unbound.
  An entry of \<^verbatim>\<open>apps\<close> holds the description and, per build stack, the version lines.
\<close>

record app =
  description :: pyval
  build_stacks :: "(pyval \<times> string list) list"

record locals =
  apps :: "(pyval \<times> app) list"
  moduletitle :: "pyval option"
  buildstack :: "pyval option"
  preferredbuildexplanation :: "string option"

definition no_locals :: locals where
  "no_locals = \<lparr>apps = [], moduletitle = None, buildstack = None, preferredbuildexplanation = None\<rparr>"

text \<open>The line of one build, before it is wrapped.\<close>

definition vstr_of :: "env \<Rightarrow> string \<Rightarrow> pyval \<Rightarrow> string \<Rightarrow> string" where
  "vstr_of env preferredbuild name buildcomments =
     replicate 6 CHR '' '' @ preferredbuild @ fmt_dots env name @ '' '' @ buildcomments"

text \<open>The body of the first loop, after the report is parsed.\<close>

definition add_report :: "env \<Rightarrow> wrapper \<Rightarrow> locals \<Rightarrow> pyval \<Rightarrow> exn + locals" where
  "add_report env versionwrapper st br =
     (case br of
        PDict d \<Rightarrow>
          try_bind (dict_get d ''title'') (\<lambda>app_name.
          try_bind (hashable app_name) (\<lambda>_.
          try_bind (dict_get d ''description'') (\<lambda>desc.
          try_bind (dict_get d ''name'') (\<lambda>name.
          try_bind (dict_get d ''build_stack'') (\<lambda>stack.
          try_bind (build_comments d) (\<lambda>comments.
          try_bind (dict_get d ''preferred_build'') (\<lambda>preferred_build.
          let buildcomments = (case comments of None \<Rightarrow> [] | Some c \<Rightarrow> fmt env c);
              preferredbuild = (if truthy preferred_build then ''* '' else []);
              explanation = (if truthy preferred_build then ''* denotes preferred build.'' else []);
              vstr = vstr_of env preferredbuild name buildcomments;
              stacks = (case map_of (apps st) app_name of None \<Rightarrow> [] | Some a \<Rightarrow> build_stacks a)
          in try_bind (hashable stack) (\<lambda>_.
             try_bind (fill env versionwrapper (PStr vstr)) (\<lambda>line.
             let versionlines = (case map_of stacks stack of None \<Rightarrow> [] | Some ls \<Rightarrow> ls);
                 a = \<lparr>description = desc,
                      build_stacks = AList.update stack (versionlines @ [line]) stacks\<rparr>
             in Inr \<lparr>apps = AList.update app_name a (apps st),
                     moduletitle = Some name,
                     buildstack = Some stack,
                     preferredbuildexplanation = Some explanation\<rparr>)))))))))
      | _ \<Rightarrow> Inl (not_subscriptable br))"

text \<open>The first loop: it stops at the first report that fails.\<close>

fun add_reports ::
  "env \<Rightarrow> wrapper \<Rightarrow> locals \<Rightarrow> pyval list \<Rightarrow> event list \<Rightarrow> (exn + locals) \<times> event list" where
  "add_reports env versionwrapper st [] tr = (Inr st, tr)"
| "add_reports env versionwrapper st (buildreport # rest) tr =
     (case load_report env buildreport tr of
        (Inl e, tr1) \<Rightarrow> (Inl e, tr1)
      | (Inr br, tr1) \<Rightarrow>
          (case add_report env versionwrapper st br of
             Inl e \<Rightarrow> (Inl e, tr1)
           | Inr st1 \<Rightarrow> add_reports env versionwrapper st1 rest tr1))"

text \<open>The items of a dictionary in the order Python iterates it.\<close>

definition items :: "env \<Rightarrow> (pyval \<times> 'a) list \<Rightarrow> (pyval \<times> 'a) list" where
  "items env d =
     concat (map (\<lambda>k. case map_of d k of None \<Rightarrow> [] | Some v \<Rightarrow> [(k, v)])
                 (dict_order env (map fst d)))"

text \<open>The inner loop of the second loop: the label of a build stack over its version lines.\<close>

fun build_stack_strs ::
  "env \<Rightarrow> wrapper \<Rightarrow> (pyval \<times> string list) list \<Rightarrow> exn + string list" where
  "build_stack_strs env buildstackwrapper [] = Inr []"
| "build_stack_strs env buildstackwrapper ((build_stack, versionlines) # rest) =
     try_bind (fill env buildstackwrapper build_stack) (\<lambda>label.
     try_bind (build_stack_strs env buildstackwrapper rest) (\<lambda>strs.
     Inr (str_join NL ([label] @ versionlines) # strs)))"

definition unbound :: "string \<Rightarrow> exn" where
  "unbound x =
     Exception UnboundLocalError
       (''local variable '' @ quoted x @ '' referenced before assignment'') None"

definition bound :: "string \<Rightarrow> 'a option \<Rightarrow> exn + 'a" where
  "bound x v = (case v of None \<Rightarrow> Inl (unbound x) | Some y \<Rightarrow> Inr y)"

text \<open>The block of one application, as the second loop formats it.\<close>

definition app_report :: "env \<Rightarrow> int \<Rightarrow> locals \<Rightarrow> pyval \<Rightarrow> app \<Rightarrow> exn + string" where
  "app_report env terminalsize st app_name details =
     (let width = terminalsize - 2;
          textmargin = 6;
          textwidth = width - int textmargin * 2;
          border = replicate (nat width) CHR ''-'';
          descwrapper = TextWrapper True textwidth textmargin textmargin;
          buildstackwrapper = TextWrapper True textwidth textmargin 30
      in try_bind (build_stack_strs env buildstackwrapper (items env (build_stacks details))) (\<lambda>strs.
         try_bind (fill env descwrapper (description details)) (\<lambda>descriptionlines.
         try_bind (bound ''moduletitle'' (moduletitle st)) (\<lambda>example.
         try_bind (bound ''buildstack'' (buildstack st)) (\<lambda>exampleflavor.
         try_bind (bound ''preferredbuildexplanation'' (preferredbuildexplanation st)) (\<lambda>explanation.
         Inr (str_join NL
           [[],
            border,
            ''  '' @ fmt env app_name,
            border,
            ''    Description:'',
            descriptionlines,
            [],
            ''    Versions:'',
            str_join NL strs,
            [],
            [],
            ''    To find detailed information about a module, search the full name.'',
            [],
            ''      module-query '' @ fmt env example,
            [],
            ''    You may need to specify the build '' @ [CHR 0x22] @ ''flavor'' @ [CHR 0x22]
              @ '' to get a single record'',
            [],
            ''      module-query '' @ fmt env example @ '' --flavor '' @ quoted (fmt env exampleflavor),
            [],
            ''    '' @ explanation,
            [],
            [],
            ''    ''])))))))"

text \<open>The second loop: one block is printed per application, until one fails.\<close>

fun print_apps ::
  "env \<Rightarrow> int \<Rightarrow> locals \<Rightarrow> (pyval \<times> app) list \<Rightarrow> event list \<Rightarrow> (exn + unit) \<times> event list" where
  "print_apps env terminalsize st [] tr = (Inr (), tr)"
| "print_apps env terminalsize st ((app_name, details) # rest) tr =
     (case app_report env terminalsize st app_name details of
        Inl e \<Rightarrow> (Inl e, tr)
      | Inr report \<Rightarrow> print_apps env terminalsize st rest (tr @ [Stdout (report @ NL)]))"

definition printConsolidatedReport ::
  "env \<Rightarrow> pyval list \<Rightarrow> int \<Rightarrow> event list \<Rightarrow> (exn + unit) \<times> event list" where
  "printConsolidatedReport env buildreports terminalsize tr =
     (let terminalsize = (if terminalsize = 0 then 80 else terminalsize);
          textwidth = terminalsize - 2 - 6 * 2;
          versionwrapper = TextWrapper True textwidth 6 58
      in case add_reports env versionwrapper no_locals buildreports tr of
           (Inl e, tr1) \<Rightarrow> (Inl e, tr1)
         | (Inr st, tr1) \<Rightarrow> print_apps env terminalsize st (items env (apps st)) tr1)"

section \<open>The command lines\<close>

text \<open>
  \<^verbatim>\<open>re.split(r'\s*,\s*', text)\<close>. At each position the pattern matches when the white
  space that starts there is followed by a comma, and it takes the white space after
  the comma too; otherwise the character belongs to the current field.
\<close>

definition re_space :: "char \<Rightarrow> bool" where
  "re_space c = (of_char c \<in> {9, 10, 11, 12, 13, 32 :: nat})"

function re_split :: "string \<Rightarrow> string \<Rightarrow> string list" where
  "re_split field [] = [field]"
| "re_split field (c # cs) =
     (case dropWhile re_space (c # cs) of
        [] \<Rightarrow> re_split (field @ [c]) cs
      | x # after \<Rightarrow>
          if x = CHR '',''
          then field # re_split [] (dropWhile re_space after)
          else re_split (field @ [c]) cs)"
  by pat_completeness auto
termination
proof (relation "measure (\<lambda>(field, text). length text)")
  show "wf (measure (\<lambda>(field, text). length text))"
    by simp
next
  fix field :: string and c cs
  show "((field @ [c], cs), (field, c # cs)) \<in> measure (\<lambda>(field, text). length text)"
    by simp
next
  fix field :: string and c cs x after
  assume d: "dropWhile re_space (c # cs) = x # after"
  have "length (dropWhile re_space after) \<le> length after"
    by (rule length_dropWhile_le)
  moreover have "length (x # after) \<le> length (c # cs)"
    unfolding d[symmetric] by (rule length_dropWhile_le)
  ultimately show "(([], dropWhile re_space after), (field, c # cs))
                   \<in> measure (\<lambda>(field, text). length text)"
    by simp
next
  fix field :: string and c cs x after
  show "((field @ [c], cs), (field, c # cs)) \<in> measure (\<lambda>(field, text). length text)"
    by simp
qed

definition split_flavors :: "string \<Rightarrow> string list" where
  "split_flavors text = re_split [] text"

text \<open>The message of a search without a match, and the \<^verbatim>\<open>except\<close> clauses of both mains.\<close>

definition no_match :: "string \<Rightarrow> string list \<Rightarrow> string" where
  "no_match search build_stack_names =
     NL @ ''Unable to find a match for '' @ quoted search @ '' '' @ NL
        @ ''search was limited to build flavors '' @ str_join '', '' build_stack_names @ NL @ NL"

definition handle :: "env \<Rightarrow> string \<Rightarrow> (exn + int) \<times> event list \<Rightarrow> int \<times> event list" where
  "handle env program_name run =
     (case run of
        (Inr code, tr) \<Rightarrow> (code, tr)
      | (Inl KeyboardInterrupt, tr) \<Rightarrow> (0, tr)
      | (Inl (Exception cl s um), tr) \<Rightarrow>
          (2, tr @ [Stderr (case um of
                              Some user_msg \<Rightarrow>
                                if \<not> DEBUG env then program_name @ '': '' @ user_msg @ NL
                                else program_name @ '': '' @ s @ NL @ format_exc env (Exception cl s um)
                            | None \<Rightarrow>
                                program_name @ '': '' @ s @ NL @ format_exc env (Exception cl s um)),
                    Stderr (''  for help use --help'' @ NL)]))"

subsection \<open>module-query\<close>

text \<open>
  The arguments as \<^verbatim>\<open>argparse\<close> delivers them; \<^verbatim>\<open>-v\<close> is counted and is \<^verbatim>\<open>None\<close> when
  absent, and in Python 2 \<^verbatim>\<open>None > 0\<close> is false.
\<close>

record query_args =
  query_program_name :: string
  query_verbose :: "nat option"
  query_build_stacks :: string
  query_full_text :: bool
  query_build_name :: string

definition positive :: "nat option \<Rightarrow> bool" where
  "positive verbose = (case verbose of None \<Rightarrow> False | Some n \<Rightarrow> n > 0)"

text \<open>What \<^verbatim>\<open>-v\<close> makes the program print before it fetches.\<close>

definition announcements :: "query_args \<Rightarrow> event list" where
  "announcements args =
     (let verbose = query_verbose args;
          build_name = query_build_name args
      in (if positive verbose then [Stdout (''Verbose mode on'' @ NL)] else [])
         @ (if positive verbose then [Stdout (''Searching for '' @ build_name @ NL)] else []))"

definition query_body :: "env \<Rightarrow> query_args \<Rightarrow> event list \<Rightarrow> (exn + int) \<times> event list" where
  "query_body env args tr =
     (let build_stack_names = split_flavors (query_build_stacks args);
          build_name = query_build_name args;
          tr2 = tr @ announcements args
      in case fetchBuildReports env build_name build_stack_names (query_full_text args) tr2 of
           (Inl e, tr3) \<Rightarrow> (Inl e, tr3)
         | (Inr buildreports, tr3) \<Rightarrow>
             if length buildreports = 0
             then (Inr 1, tr3 @ [Stderr (no_match (query_build_name args) build_stack_names)])
             else
               (case (if length buildreports = 1
                      then (case getTerminalSize env of
                              Inl e \<Rightarrow> (Inl e, tr3)
                            | Inr columns \<Rightarrow> printDetailReport env (buildreports ! 0) columns tr3)
                      else (case getTerminalSize env of
                              Inl e \<Rightarrow> (Inl e, tr3)
                            | Inr columns \<Rightarrow> printConsolidatedReport env buildreports columns tr3)) of
                  (Inl e, tr4) \<Rightarrow> (Inl e, tr4)
                | (Inr u, tr4) \<Rightarrow> (Inr 0, tr4)))"

definition query_main :: "env \<Rightarrow> query_args \<Rightarrow> event list \<Rightarrow> int \<times> event list" where
  "query_main env args tr = handle env (query_program_name args) (query_body env args tr)"

subsection \<open>check-activation\<close>

record check_args =
  check_program_name :: string
  check_build_stacks :: string
  check_verbose :: bool
  check_search :: string

text \<open>The loop over the builds: each is announced, tried once and reported.\<close>

definition verbosestr_of :: "bool \<Rightarrow> string" where
  "verbosestr_of verbose = (if verbose then [] else '' 2> /dev/null 1> /dev/null'')"

definition attempting :: "env \<Rightarrow> pyval \<Rightarrow> pyval \<Rightarrow> string" where
  "attempting env activation name =
     ''Attempting '' @ fmt env activation @ '' for build '' @ fmt env name @ ''... ''"

definition command_of :: "env \<Rightarrow> string \<Rightarrow> pyval \<Rightarrow> string" where
  "command_of env verbosestr activation =
     ''module purge && '' @ fmt env activation @ '' '' @ verbosestr"

fun try_builds ::
  "env \<Rightarrow> string \<Rightarrow> pyval list \<Rightarrow> event list \<Rightarrow> (exn + unit) \<times> event list" where
  "try_builds env verbosestr [] tr = (Inr (), tr)"
| "try_builds env verbosestr (build # rest) tr =
     (case try_bind (subscript build ''activation'') (\<lambda>activation.
           try_bind (subscript build ''name'') (\<lambda>name. Inr (activation, name))) of
        Inl e \<Rightarrow> (Inl e, tr)
      | Inr (activation, name) \<Rightarrow>
          (let tr1 = tr @ [Stdout (attempting env activation name)];
               command = command_of env verbosestr activation;
               result = (if os_system env tr1 command = 0 then ''Success'' else ''Fail'')
           in try_builds env verbosestr rest (tr1 @ [System command, Stdout (result @ NL)])))"

definition check_body :: "env \<Rightarrow> check_args \<Rightarrow> event list \<Rightarrow> (exn + int) \<times> event list" where
  "check_body env args tr =
     (let build_stack_names = split_flavors (check_build_stacks args);
          search = check_search args;
          verbose = check_verbose args
      in case fetchBuildActivation env search build_stack_names tr of
           (Inl e, tr1) \<Rightarrow> (Inl e, tr1)
         | (Inr builds, tr1) \<Rightarrow>
             if length builds = 0
             then (Inr 1, tr1 @ [Stderr (no_match search build_stack_names)])
             else
               (let verbosestr = verbosestr_of verbose
                in case try_builds env verbosestr builds tr1 of
                     (Inl e, tr2) \<Rightarrow> (Inl e, tr2)
                   | (Inr u, tr2) \<Rightarrow> (Inr 0, tr2 @ [System ''module purge''])))"

definition check_main :: "env \<Rightarrow> check_args \<Rightarrow> event list \<Rightarrow> int \<times> event list" where
  "check_main env args tr = handle env (check_program_name args) (check_body env args tr)"

section \<open>Reading a trace\<close>

text \<open>
  What a claim says about a run is read off its trace: the queries that were executed,
  the number of connection attempts, the waits, the shell commands and the texts written
  to the two output streams.
\<close>

fun executes :: "event list \<Rightarrow> (conn \<times> string \<times> string list) list" where
  "executes [] = []"
| "executes (Execute c sql ps # tr) = (c, sql, ps) # executes tr"
| "executes (e # tr) = executes tr"

fun connects :: "event list \<Rightarrow> nat" where
  "connects [] = 0"
| "connects (Connect # tr) = Suc (connects tr)"
| "connects (e # tr) = connects tr"

fun sleeps :: "event list \<Rightarrow> nat list" where
  "sleeps [] = []"
| "sleeps (Sleep n # tr) = n # sleeps tr"
| "sleeps (e # tr) = sleeps tr"

text \<open>The attempts to connect and the waits among the events, in their order.\<close>

fun timeline :: "event list \<Rightarrow> event list" where
  "timeline [] = []"
| "timeline (Connect # tr) = Connect # timeline tr"
| "timeline (Sleep n # tr) = Sleep n # timeline tr"
| "timeline (e # tr) = timeline tr"




text \<open>An attempt to connect fails when \<^verbatim>\<open>MySQLdb.connect\<close> raises an \<^verbatim>\<open>Exception\<close>.\<close>

fun failed :: "exn + conn \<Rightarrow> bool" where
  "failed (Inl (Exception cl s um)) = True"
| "failed r = False"

text \<open>
  A small environment for concrete runs: the first connection succeeds, the query has no
  rows, every command exits with 0, no terminal is attached, nothing parses, and a
  wrapper never breaks a line. Concrete runs replace the parts they need.
\<close>

definition quiet_env :: env where
  "quiet_env =
     \<lparr>DEBUG = False,
      SQL_DSN_host = ''rcdb-internal'',
      db_connect = (\<lambda>tr. Inr 1),
      db_execute = (\<lambda>tr c sql ps. Inr ([], [])),
      os_system = (\<lambda>tr command. 0),
      ioctl_GWINSZ = (\<lambda>fd. None),
      open_ctermid = None,
      environ = (\<lambda>k. None),
      py_int = (\<lambda>s. Inl (Exception ValueError ''invalid literal for int()'' None)),
      json_loads = (\<lambda>v. Inl (Exception ValueError ''No JSON object could be decoded'' None)),
      wrap_fill = (\<lambda>w s. initial_indent w @ s),
      py_format = (\<lambda>v spec. []),
      py_repr = (\<lambda>v. []),
      format_exc = (\<lambda>e. []),
      dict_order = (\<lambda>ks. ks)\<rparr>"

text \<open>
  An environment whose database refuses three connections and would accept a fourth,
  and one whose database accepts the second.
\<close>

definition refusing_env :: env where
  "refusing_env =
     quiet_env\<lparr>db_connect :=
       (\<lambda>tr. if connects tr < 3 then Inl (Exception LibraryError ''cannot connect'' None) else Inr 5)\<rparr>"

definition second_try_env :: env where
  "second_try_env =
     quiet_env\<lparr>db_connect :=
       (\<lambda>tr. if connects tr = 1 then Inr 7 else Inl (Exception LibraryError ''cannot connect'' None))\<rparr>"

text \<open>The trace after an attempt that failed: the attempt, the diagnostic and the wait.\<close>

definition after_failure :: "env \<Rightarrow> event list \<Rightarrow> event list" where
  "after_failure env tr =
     (case db_connect env tr of
        Inl (Exception cl s um) \<Rightarrow>
          tr @ [Connect]
             @ (if DEBUG env
                then [Stderr (''Connection error '' @ s @ NL
                              @ format_exc env (Exception cl s um) @ NL)]
                else [])
             @ [Sleep CONNECTION_WAIT]
      | _ \<Rightarrow> tr)"

section \<open>Reading the trace of check-activation\<close>


text \<open>
  The reports among the events: each announcement that is followed by a command and a
  result line, with the status that the shell gave the command at that moment.
\<close>

record report =
  announcement :: string
  shell_command :: string
  exit_status :: int
  verdict :: string



section \<open>Concrete reports\<close>

text \<open>
  A library whose \<^verbatim>\<open>json.loads\<close> knows the given report texts and whose database answers
  every query with the given column names and rows.
\<close>

definition loads_table :: "(string \<times> pyval) list \<Rightarrow> pyval \<Rightarrow> exn + pyval" where
  "loads_table table v =
     (case v of
        PStr s \<Rightarrow>
          (case map_of table s of
             Some br \<Rightarrow> Inr br
           | None \<Rightarrow> Inl (Exception ValueError ''No JSON object could be decoded'' None))
      | _ \<Rightarrow> Inl (Exception TypeError ''expected string or buffer'' None))"

definition stocked_env :: "(string \<times> pyval) list \<Rightarrow> string list \<Rightarrow> pyval list list \<Rightarrow> env" where
  "stocked_env table cols rows =
     quiet_env\<lparr>db_execute := (\<lambda>tr c sql ps. Inr (cols, rows)), json_loads := loads_table table\<rparr>"

text \<open>
  The required fields of a report together with its build stack; a complete report adds
  the three optional fields that the programs read. The table holds five report texts
  and what \<^verbatim>\<open>json.loads\<close> makes of them: two complete reports of gcc, one of them the
  preferred build, a complete report of R, and reports of gcc that lack one optional
  field or all of them.
\<close>

definition report_fields :: "string \<Rightarrow> string \<Rightarrow> (pyval \<times> pyval) list" where
  "report_fields title name =
     [(PStr ''title'', PStr title),
      (PStr ''name'', PStr name),
      (PStr ''description'', PStr (''About '' @ title)),
      (PStr ''activation'', PStr (''module load '' @ name)),
      (PStr ''build_stack'', PStr ''Easy Build'')]"

definition complete_report :: "string \<Rightarrow> string \<Rightarrow> bool \<Rightarrow> pyval" where
  "complete_report title name preferred =
     PDict (report_fields title name
            @ [(PStr ''run_dependencies'', PList []),
               (PStr ''comments'', PStr ''tested''),
               (PStr ''preferred_build'', PBool preferred)])"

definition report_table :: "(string \<times> pyval) list" where
  "report_table =
     [(''gcc/9.3.0, preferred'', complete_report ''gcc'' ''gcc/9.3.0-fasrc01'' True),
      (''gcc/8.2.0'', complete_report ''gcc'' ''gcc/8.2.0-fasrc01'' False),
      (''R/4.0.2'', complete_report ''R'' ''R/4.0.2-fasrc01'' False),
      (''gcc/9.3.0 without run_dependencies'',
         PDict (report_fields ''gcc'' ''gcc/9.3.0-fasrc01''
                @ [(PStr ''comments'', PStr ''tested''), (PStr ''preferred_build'', PBool True)])),
      (''gcc/9.3.0 without preferred_build'',
         PDict (report_fields ''gcc'' ''gcc/9.3.0-fasrc01''
                @ [(PStr ''run_dependencies'', PList []), (PStr ''comments'', PStr ''tested'')])),
      (''gcc/9.3.0 without comments'',
         PDict (report_fields ''gcc'' ''gcc/9.3.0-fasrc01''
                @ [(PStr ''run_dependencies'', PList []), (PStr ''preferred_build'', PBool True)])),
      (''gcc/9.3.0, required fields only'',
         PDict (report_fields ''gcc'' ''gcc/9.3.0-fasrc01''))]"

text \<open>
  The environment whose query returns the rows with the given report texts, and the
  command line \<^verbatim>\<open>module-query gcc\<close>.
\<close>

definition report_row :: "string \<Rightarrow> pyval" where
  "report_row report_text = row_dict [''report_text''] [PStr report_text]"

definition report_env :: "string list \<Rightarrow> env" where
  "report_env report_texts =
     stocked_env report_table [''report_text''] (map (\<lambda>t. [PStr t]) report_texts)"

definition query_gcc :: query_args where
  "query_gcc =
     \<lparr>query_program_name = ''module-query'', query_verbose = None,
      query_build_stacks = ''Easy Build'', query_full_text = False,
      query_build_name = ''gcc''\<rparr>"

section \<open>Concrete builds\<close>





section \<open>Reports with the fields the renderers read\<close>

text \<open>
  The fields of a parsed report as the data model types them: the title, the name, the
  description, the activation and the build stack are strings; the comments and the
  activation note of the build stack are strings, null or absent; the run-time
  dependencies, when present, are a list of strings.
\<close>

fun is_str :: "pyval \<Rightarrow> bool" where
  "is_str (PStr s) = True"
| "is_str v = False"

definition str_field :: "(pyval \<times> pyval) list \<Rightarrow> string \<Rightarrow> bool" where
  "str_field d k = (case map_of d (PStr k) of Some v \<Rightarrow> is_str v | None \<Rightarrow> False)"

definition optional_text :: "(pyval \<times> pyval) list \<Rightarrow> string \<Rightarrow> bool" where
  "optional_text d k =
     (case map_of d (PStr k) of Some v \<Rightarrow> is_str v \<or> v = PNone | None \<Rightarrow> True)"

definition str_list :: "pyval \<Rightarrow> bool" where
  "str_list v = (case v of PList xs \<Rightarrow> list_all is_str xs | _ \<Rightarrow> False)"

definition required_fields :: "(pyval \<times> pyval) list \<Rightarrow> bool" where
  "required_fields d =
     (str_field d ''title'' \<and> str_field d ''name'' \<and> str_field d ''description''
      \<and> str_field d ''activation'' \<and> str_field d ''build_stack''
      \<and> optional_text d ''comments'' \<and> optional_text d ''build_stack_activation'')"

definition parses :: "env \<Rightarrow> pyval \<Rightarrow> (pyval \<times> pyval) list \<Rightarrow> bool" where
  "parses env buildreport d =
     (try_bind (subscript buildreport ''report_text'') (json_loads env) = Inr (PDict d))"

definition lists_dependencies :: "(pyval \<times> pyval) list \<Rightarrow> bool" where
  "lists_dependencies d =
     (case map_of d (PStr ''run_dependencies'') of Some v \<Rightarrow> str_list v | None \<Rightarrow> False)"

definition says_preferred :: "(pyval \<times> pyval) list \<Rightarrow> bool" where
  "says_preferred d = (map_of d (PStr ''preferred_build'') \<noteq> None)"

text \<open>
  What the first loop of the consolidated report keeps true of its local variables when
  the reports are such: titles, descriptions and build stacks are strings, and once an
  application is entered the three names read by the second loop are bound.
\<close>

definition printable :: "locals \<Rightarrow> bool" where
  "printable st =
     ((\<forall>entry \<in> set (apps st).
         is_str (fst entry) \<and> is_str (description (snd entry))
         \<and> (\<forall>stack \<in> set (build_stacks (snd entry)). is_str (fst stack)))
      \<and> (apps st \<noteq> [] \<longrightarrow>
           moduletitle st \<noteq> None \<and> buildstack st \<noteq> None
           \<and> preferredbuildexplanation st \<noteq> None))"

section \<open>Properties of the query builder\<close>

lemma str_join_replicate_Suc:
  "str_join sep (replicate (Suc (Suc n)) x) = x @ sep @ str_join sep (replicate (Suc n) x)"
  by simp

lemma placeholders_format_Suc: "placeholders (str_join '','' (replicate (Suc n) ''%s'')) = Suc n"
proof (induction n)
  case 0
  show ?case by simp
next
  case (Suc n)
  have "placeholders (str_join '','' (replicate (Suc (Suc n)) ''%s''))
        = placeholders (''%s,'' @ str_join '','' (replicate (Suc n) ''%s''))"
    by simp
  also have "\<dots> = Suc (placeholders ('','' @ str_join '','' (replicate (Suc n) ''%s'')))"
    by simp
  also have "\<dots> = Suc (placeholders (str_join '','' (replicate (Suc n) ''%s'')))"
    by (cases n) simp_all
  finally show ?case using Suc by simp
qed

lemma placeholders_format: "placeholders (format_strings names) = length names"
  unfolding format_strings_def
  by (cases "length names") (simp_all only: placeholders_format_Suc, simp)

lemma set_format_Suc:
  "set (str_join '','' (replicate (Suc n) ''%s'')) \<subseteq> {CHR ''%'', CHR ''s'', CHR '',''}"
  by (induction n) auto

lemma set_format: "CHR '')'' \<notin> set (format_strings names)"
proof (cases "length names")
  case 0 then show ?thesis by (simp add: format_strings_def)
next
  case (Suc m)
  then show ?thesis using set_format_Suc[of m] by (auto simp: format_strings_def)
qed

lemma in_clause_of_between:
  assumes "dropWhile (\<lambda>c. c \<noteq> CHR ''('') pre = ''(''" "CHR '')'' \<notin> set c"
    and "post \<noteq> []" "hd post = CHR '')''"
  shows "in_clause_of (pre @ c @ post) = c"
proof -
  obtain rest where post: "post = CHR '')'' # rest"
    using assms(3,4) by (cases post) auto
  have "\<not> (\<forall>x\<in>set pre. x \<noteq> CHR ''('')"
  proof
    assume "\<forall>x\<in>set pre. x \<noteq> CHR ''(''"
    then have "dropWhile (\<lambda>c. c \<noteq> CHR ''('') pre = []" by simp
    with assms(1) show False by simp
  qed
  then have "dropWhile (\<lambda>c. c \<noteq> CHR ''('') (pre @ c @ post)
             = dropWhile (\<lambda>c. c \<noteq> CHR ''('') pre @ c @ post"
    by (simp only: dropWhile_append if_False)
  then have d: "dropWhile (\<lambda>c. c \<noteq> CHR ''('') (pre @ c @ post)
             = CHR ''('' # c @ post"
    using assms(1) by simp
  have t: "takeWhile (\<lambda>c. c \<noteq> CHR '')'') (c @ CHR '')'' # rest) = c"
    using assms(2) by (induction c) auto
  show ?thesis unfolding in_clause_of_def d using t post by simp
qed

lemma in_clause_name: "in_clause_of (name_sql (format_strings names)) = format_strings names"
  unfolding name_sql_def
  by (rule in_clause_of_between) (code_simp, rule set_format, code_simp, code_simp)

lemma in_clause_fulltext: "in_clause_of (fulltext_sql (format_strings names)) = format_strings names"
  unfolding fulltext_sql_def
  by (rule in_clause_of_between) (code_simp, rule set_format, code_simp, code_simp)

lemma in_clause_activation: "in_clause_of (activation_sql (format_strings names)) = format_strings names"
  unfolding activation_sql_def
  by (rule in_clause_of_between) (code_simp, rule set_format, code_simp, code_simp)

lemma placeholders_Cons:
  "placeholders (v # ys) =
     (if v = CHR ''%'' \<and> ys \<noteq> [] \<and> hd ys = CHR ''s''
      then Suc (placeholders (tl ys)) else placeholders ys)"
  by (cases ys) auto

lemma placeholders_append:
  "xs = [] \<or> last xs \<noteq> CHR ''%'' \<Longrightarrow> placeholders (xs @ ys) = placeholders xs + placeholders ys"
proof (induction xs rule: placeholders.induct)
  case (1 a b cs)
  then show ?case by (auto split: if_splits)
qed (simp_all add: placeholders_Cons)

lemma last_format: "format_strings names = [] \<or> last (format_strings names) \<noteq> CHR ''%''"
proof (cases "length names")
  case 0 then show ?thesis by (simp add: format_strings_def)
next
  case (Suc m)
  have "str_join '','' (replicate (Suc k) ''%s'') \<noteq> []
        \<and> last (str_join '','' (replicate (Suc k) ''%s'')) = CHR ''s''" for k
    by (induction k) auto
  then show ?thesis using Suc by (simp add: format_strings_def)
qed

lemma placeholders_around:
  assumes "pre = [] \<or> last pre \<noteq> CHR ''%''"
  shows "placeholders (pre @ format_strings names @ post)
         = placeholders pre + length names + placeholders post"
proof -
  have "placeholders (pre @ format_strings names @ post)
        = placeholders pre + placeholders (format_strings names @ post)"
    using assms by (rule placeholders_append)
  also have "placeholders (format_strings names @ post)
        = placeholders (format_strings names) + placeholders post"
    using last_format by (rule placeholders_append)
  finally show ?thesis by (simp add: placeholders_format)
qed

lemma placeholders_name: "placeholders (name_sql (format_strings names)) = length names + 1"
proof -
  have 0: "name_sql_head = [] \<or> last name_sql_head \<noteq> CHR ''%''" by code_simp
  have 1: "placeholders name_sql_head = 1" by code_simp
  have 2: "placeholders name_sql_tail = 0" by code_simp
  show ?thesis unfolding name_sql_def placeholders_around[OF 0] 1 2 by simp
qed

lemma placeholders_fulltext: "placeholders (fulltext_sql (format_strings names)) = length names + 1"
proof -
  have 0: "fulltext_sql_head = [] \<or> last fulltext_sql_head \<noteq> CHR ''%''" by code_simp
  have 1: "placeholders fulltext_sql_head = 1" by code_simp
  have 2: "placeholders fulltext_sql_tail = 0" by code_simp
  show ?thesis unfolding fulltext_sql_def placeholders_around[OF 0] 1 2 by simp
qed

lemma placeholders_activation: "placeholders (activation_sql (format_strings names)) = length names + 1"
proof -
  have 0: "activation_sql_head = [] \<or> last activation_sql_head \<noteq> CHR ''%''" by code_simp
  have 1: "placeholders activation_sql_head = 1" by code_simp
  have 2: "placeholders activation_sql_tail = 0" by code_simp
  show ?thesis unfolding activation_sql_def placeholders_around[OF 0] 1 2 by simp
qed

section \<open>Properties of traces\<close>

lemma executes_append: "executes (a @ b) = executes a @ executes b"
  by (induction a rule: executes.induct) simp_all

lemma connects_append: "connects (a @ b) = connects a + connects b"
  by (induction a rule: connects.induct) simp_all

lemma sleeps_append: "sleeps (a @ b) = sleeps a @ sleeps b"
  by (induction a rule: sleeps.induct) simp_all

lemma timeline_append: "timeline (a @ b) = timeline a @ timeline b"
  by (induction a rule: timeline.induct) simp_all

lemma connects_timeline: "connects (timeline tr) = connects tr"
  by (induction tr rule: timeline.induct) simp_all

lemma sleeps_timeline: "sleeps (timeline tr) = sleeps tr"
  by (induction tr rule: timeline.induct) simp_all

lemma connects_timeline_Nil: "timeline tr = [] \<Longrightarrow> connects tr = 0"
  using connects_timeline[of tr] by simp

section \<open>Properties of the connection manager\<close>

lemma connect_loop_stops:
  "\<not> (connection = None \<and> attempts < MAX_ATTEMPTS) \<Longrightarrow>
   connect_loop env connection attempts tr = (Inr connection, tr)"
  by (subst connect_loop.simps) auto

lemma connect_loop_connected:
  "attempts < MAX_ATTEMPTS \<Longrightarrow> db_connect env tr = Inr c \<Longrightarrow>
   connect_loop env None attempts tr = (Inr (Some c), tr @ [Connect])"
  by (subst connect_loop.simps) (simp add: connect_loop_stops)

lemma connect_loop_interrupted:
  "attempts < MAX_ATTEMPTS \<Longrightarrow> db_connect env tr = Inl KeyboardInterrupt \<Longrightarrow>
   connect_loop env None attempts tr = (Inl KeyboardInterrupt, tr @ [Connect])"
  by (subst connect_loop.simps) simp

lemma connect_loop_failed:
  "attempts < MAX_ATTEMPTS \<Longrightarrow> failed (db_connect env tr) \<Longrightarrow>
   connect_loop env None attempts tr = connect_loop env None (attempts + 1) (after_failure env tr)"
  by (subst connect_loop.simps) (auto simp: after_failure_def elim!: failed.elims)

lemma connects_after_failure:
  "failed (db_connect env tr) \<Longrightarrow> connects (after_failure env tr) = connects tr + 1"
  by (auto simp: after_failure_def connects_append elim!: failed.elims)

lemma timeline_after_failure:
  "failed (db_connect env tr) \<Longrightarrow>
   timeline (after_failure env tr) = timeline tr @ [Connect, Sleep CONNECTION_WAIT]"
  by (auto simp: after_failure_def timeline_append elim!: failed.elims)

lemma executes_connect_loop:
  "executes (snd (connect_loop env connection attempts tr)) = executes tr"
proof (induction env connection attempts tr rule: connect_loop.induct)
  case (1 env connection connection_attempts tr)
  show ?case
  proof (cases "connection = None \<and> connection_attempts < MAX_ATTEMPTS")
    case False
    then show ?thesis by (subst connect_loop.simps) auto
  next
    case True
    show ?thesis
    proof (cases "db_connect env tr")
      case (Inr c)
      then show ?thesis using True "1.IH"(2)[OF True Inr]
        by (subst connect_loop.simps) (simp add: executes_append)
    next
      case (Inl e)
      show ?thesis
      proof (cases e)
        case KeyboardInterrupt
        then show ?thesis using True Inl
          by (subst connect_loop.simps) (simp add: executes_append)
      next
        case (Exception cl s um)
        then show ?thesis using True Inl "1.IH"(1)[OF True Inl Exception]
          by (subst connect_loop.simps) (simp add: executes_append)
      qed
    qed
  qed
qed

lemma connects_connect_loop_le:
  "connects (snd (connect_loop env connection attempts tr))
   \<le> connects tr + (MAX_ATTEMPTS - attempts)"
proof (induction env connection attempts tr rule: connect_loop.induct)
  case (1 env connection connection_attempts tr)
  show ?case
  proof (cases "connection = None \<and> connection_attempts < MAX_ATTEMPTS")
    case False
    then show ?thesis by (simp add: connect_loop_stops)
  next
    case True
    show ?thesis
    proof (cases "db_connect env tr")
      case (Inr c)
      then have "connects (snd (connect_loop env connection connection_attempts tr))
                 = connects tr + 1"
        using True by (simp add: connect_loop_connected connects_append)
      then show ?thesis using True by arith
    next
      case (Inl e)
      show ?thesis
      proof (cases e)
        case KeyboardInterrupt
        then have "connects (snd (connect_loop env connection connection_attempts tr))
                   = connects tr + 1"
          using True Inl by (simp add: connect_loop_interrupted connects_append)
        then show ?thesis using True by arith
      next
        case (Exception cl s um)
        have eq: "connect_loop env connection connection_attempts tr
              = connect_loop env None (connection_attempts + 1) (after_failure env tr)"
          using True Inl Exception by (simp add: connect_loop_failed)
        have le: "connects (snd (connect_loop env None (connection_attempts + 1)
                                       (after_failure env tr)))
              \<le> connects (after_failure env tr) + (MAX_ATTEMPTS - (connection_attempts + 1))"
          using "1.IH"(1)[OF True Inl Exception] Inl Exception
          by (simp add: after_failure_def)
        have c: "connects (after_failure env tr) = connects tr + 1"
          using Inl Exception by (simp add: connects_after_failure)
        from le c have "connects (snd (connect_loop env None (connection_attempts + 1)
                                       (after_failure env tr)))
              \<le> connects tr + (MAX_ATTEMPTS - connection_attempts)"
          using True by arith
        then show ?thesis unfolding eq .
      qed
    qed
  qed
qed

lemma connect_loop_succeeds:
  assumes H: "\<forall>h. db_connect env h = outcome (connects h)"
    and "connects tr = a" "a \<le> k" "k < MAX_ATTEMPTS"
    and "\<forall>j. a \<le> j \<and> j < k \<longrightarrow> failed (outcome j)"
    and "outcome k = Inr c"
  shows "fst (connect_loop env None a tr) = Inr (Some c)
         \<and> connects (snd (connect_loop env None a tr)) = k + 1"
  using assms(2-)
proof (induction "k - a" arbitrary: a tr)
  case 0
  then have "a = k" by simp
  then have "db_connect env tr = Inr c" using H 0 by simp
  then show ?case using 0 \<open>a = k\<close>
    by (simp add: connect_loop_connected connects_append)
next
  case (Suc d)
  then have lt: "a < k" by simp
  then have f: "failed (db_connect env tr)" using H Suc.prems by simp
  have a: "a < MAX_ATTEMPTS" using lt Suc.prems by simp
  have step: "connect_loop env None a tr = connect_loop env None (a + 1) (after_failure env tr)"
    using a f by (rule connect_loop_failed)
  have "fst (connect_loop env None (a + 1) (after_failure env tr)) = Inr (Some c)
        \<and> connects (snd (connect_loop env None (a + 1) (after_failure env tr))) = k + 1"
  proof (rule Suc.hyps(1))
    show "d = k - (a + 1)" using Suc.hyps(2) by simp
    show "connects (after_failure env tr) = a + 1"
      using f Suc.prems by (simp add: connects_after_failure)
    show "a + 1 \<le> k" using lt by simp
    show "k < MAX_ATTEMPTS" using Suc.prems by simp
    show "\<forall>j. a + 1 \<le> j \<and> j < k \<longrightarrow> failed (outcome j)" using Suc.prems by simp
    show "outcome k = Inr c" using Suc.prems by simp
  qed
  then show ?case using step by simp
qed

lemma connect_loop_exhausted:
  assumes H: "\<forall>h. db_connect env h = outcome (connects h)"
    and "connects tr = a" "a \<le> MAX_ATTEMPTS"
    and "\<forall>j. a \<le> j \<and> j < MAX_ATTEMPTS \<longrightarrow> failed (outcome j)"
  shows "fst (connect_loop env None a tr) = Inr None
         \<and> timeline (snd (connect_loop env None a tr))
           = timeline tr @ concat (replicate (MAX_ATTEMPTS - a) [Connect, Sleep CONNECTION_WAIT])"
  using assms(2-)
proof (induction "MAX_ATTEMPTS - a" arbitrary: a tr)
  case 0
  then have "\<not> (None = (None :: conn option) \<and> a < MAX_ATTEMPTS)" by simp
  then show ?case using 0 by (simp add: connect_loop_stops)
next
  case (Suc d)
  then have a: "a < MAX_ATTEMPTS" by simp
  then have f: "failed (db_connect env tr)" using H Suc.prems by simp
  have step: "connect_loop env None a tr = connect_loop env None (a + 1) (after_failure env tr)"
    using a f by (rule connect_loop_failed)
  have "fst (connect_loop env None (a + 1) (after_failure env tr)) = Inr None
        \<and> timeline (snd (connect_loop env None (a + 1) (after_failure env tr)))
          = timeline (after_failure env tr)
            @ concat (replicate (MAX_ATTEMPTS - (a + 1)) [Connect, Sleep CONNECTION_WAIT])"
  proof (rule Suc.hyps(1))
    show "d = MAX_ATTEMPTS - (a + 1)" using Suc.hyps(2) by simp
    show "connects (after_failure env tr) = a + 1"
      using f Suc.prems by (simp add: connects_after_failure)
    show "a + 1 \<le> MAX_ATTEMPTS" using a by simp
    show "\<forall>j. a + 1 \<le> j \<and> j < MAX_ATTEMPTS \<longrightarrow> failed (outcome j)" using Suc.prems by simp
  qed
  moreover have "MAX_ATTEMPTS - a = Suc (MAX_ATTEMPTS - (a + 1))" using a by simp
  ultimately show ?case using step f by (simp add: timeline_after_failure)
qed

lemma connect_db_exhausted:
  assumes H: "\<forall>h. db_connect env h = outcome (connects h)"
    and "connects tr = 0"
    and "\<forall>k<3. failed (outcome k)"
  shows "fst (connect_db env tr)
           = Inl (Exception BareException [] (Some (''Unable to connect to '' @ SQL_DSN_host env)))"
    and "timeline (snd (connect_db env tr))
           = timeline tr @ [Connect, Sleep 2, Connect, Sleep 2, Connect, Sleep 2]"
proof -
  have "fst (connect_loop env None 0 tr) = Inr None
         \<and> timeline (snd (connect_loop env None 0 tr))
           = timeline tr @ concat (replicate (MAX_ATTEMPTS - 0) [Connect, Sleep CONNECTION_WAIT])"
    using H assms(2) by (rule connect_loop_exhausted) (use assms(3) in \<open>simp_all add: MAX_ATTEMPTS_def\<close>)
  then have l: "fst (connect_loop env None 0 tr) = Inr None"
    and t: "timeline (snd (connect_loop env None 0 tr))
           = timeline tr @ [Connect, Sleep 2, Connect, Sleep 2, Connect, Sleep 2]"
    by (simp_all add: MAX_ATTEMPTS_def CONNECTION_WAIT_def numeral_3_eq_3)
  show "fst (connect_db env tr)
           = Inl (Exception BareException [] (Some (''Unable to connect to '' @ SQL_DSN_host env)))"
    using l by (cases "connect_loop env None 0 tr") (simp add: connect_db_def)
  show "timeline (snd (connect_db env tr))
           = timeline tr @ [Connect, Sleep 2, Connect, Sleep 2, Connect, Sleep 2]"
    using l t by (cases "connect_loop env None 0 tr") (simp add: connect_db_def)
qed

lemma connect_db_succeeds:
  assumes H: "\<forall>h. db_connect env h = outcome (connects h)"
    and "connects tr = 0" "k < 3"
    and "\<forall>j<k. failed (outcome j)" "outcome k = Inr c"
  shows "fst (connect_db env tr) = Inr c \<and> connects (snd (connect_db env tr)) = k + 1"
proof -
  have "fst (connect_loop env None 0 tr) = Inr (Some c)
         \<and> connects (snd (connect_loop env None 0 tr)) = k + 1"
    using H assms(2) by (rule connect_loop_succeeds) (use assms(3-) in \<open>simp_all add: MAX_ATTEMPTS_def\<close>)
  then show ?thesis
    by (cases "connect_loop env None 0 tr") (simp add: connect_db_def)
qed

lemma connects_connect_db_le: "connects (snd (connect_db env tr)) \<le> connects tr + 3"
proof -
  have "connects (snd (connect_db env tr)) = connects (snd (connect_loop env None 0 tr))"
    by (cases "connect_loop env None 0 tr")
       (auto simp: connect_db_def split: sum.splits option.splits)
  then show ?thesis
    using connects_connect_loop_le[of env None 0 tr] by (simp add: MAX_ATTEMPTS_def)
qed

lemma connect_db_quiet: "connect_db quiet_env tr = (Inr 1, tr @ [Connect])"
  by (simp add: connect_db_def connect_loop_connected MAX_ATTEMPTS_def quiet_env_def)

section \<open>The queries that a fetch executes\<close>

lemma executes_connect_db: "executes (snd (connect_db env tr)) = executes tr"
  using executes_connect_loop[of env None 0 tr]
  by (auto simp: connect_db_def split: prod.splits sum.splits option.splits)

lemma executes_run_query:
  "executes (snd (run_query env sql ps tr)) = executes tr
   \<or> (\<exists>c. executes (snd (run_query env sql ps tr)) = executes tr @ [(c, sql, ps)])"
  using executes_connect_db[of env tr]
  by (auto simp: run_query_def executes_append Let_def split: prod.splits sum.splits)

lemma executes_fetchBuildReports:
  "(c, sql, ps) \<in> set (executes (snd (fetchBuildReports env search names fulltext []))) \<Longrightarrow>
   sql = report_sql fulltext names \<and> ps = wheres_of search names"
  using executes_run_query[of env "report_sql fulltext names" "wheres_of search names"
          "if DEBUG env
           then [Stdout (''search '' @ search @ '', build_stack_names ''
                         @ str_join '','' names @ '', fulltext '' @ str_bool fulltext @ NL)]
           else []"]
  by (cases "DEBUG env") (auto simp: fetchBuildReports_def Let_def)

lemma executes_fetchBuildActivation:
  "(c, sql, ps) \<in> set (executes (snd (fetchBuildActivation env search names []))) \<Longrightarrow>
   sql = build_sql names \<and> ps = wheres_of search names"
  using executes_run_query[of env "build_sql names" "wheres_of search names"
          "if DEBUG env
           then [Stdout (''search '' @ search @ '', build_stack_names ''
                         @ str_join '','' names @ NL)]
           else []"]
  by (cases "DEBUG env") (auto simp: fetchBuildActivation_def Let_def)

section \<open>Properties of the command lines\<close>

lemma quiet_env_fields:
  "DEBUG quiet_env = False"
  "SQL_DSN_host quiet_env = ''rcdb-internal''"
  "db_execute quiet_env = (\<lambda>tr c sql ps. Inr ([], []))"
  "os_system quiet_env = (\<lambda>tr command. 0)"
  by (simp_all add: quiet_env_def)

lemma re_split_nonempty: "re_split field s \<noteq> []"
  by (induction field s rule: re_split.induct) (auto split: list.splits)

lemma split_flavors_nonempty: "split_flavors text \<noteq> []"
  by (simp add: split_flavors_def re_split_nonempty)

lemma connect_db_accepting:
  "\<forall>h. db_connect env h = Inr c \<Longrightarrow> connect_db env tr = (Inr c, tr @ [Connect])"
  by (simp add: connect_db_def connect_loop_connected MAX_ATTEMPTS_def)

lemma executes_run_query_accepting:
  assumes "\<forall>h. db_connect env h = Inr c"
  shows "executes (snd (run_query env sql ps tr)) = executes tr @ [(c, sql, ps)]"
  using assms
  by (cases "DEBUG env")
     (auto simp: run_query_def connect_db_accepting executes_append Let_def split: sum.splits)

lemma fst_run_query_accepting:
  assumes "\<forall>h. db_connect env h = Inr c"
    and "\<forall>h sql ps. db_execute env h c sql ps = answer"
  shows "fst (run_query env sql ps tr)
         = (case answer of Inl e \<Rightarrow> Inl e | Inr (cols, rows) \<Rightarrow> Inr (map (row_dict cols) rows))"
  using assms
  by (cases "DEBUG env")
     (auto simp: run_query_def connect_db_accepting Let_def split: sum.splits)













lemma exit_one_only_without_builds:
  "fst (check_main env args tr) = 1 \<Longrightarrow>
   fst (fetchBuildActivation env (check_search args) (split_flavors (check_build_stacks args)) tr) = Inr []"
  by (auto simp: check_main_def handle_def check_body_def Let_def
           split: prod.splits sum.splits exn.splits if_splits)


lemma connect_db_first:
  "db_connect env = (\<lambda>tr. Inr c) \<Longrightarrow> connect_db env tr = (Inr c, tr @ [Connect])"
  by (simp add: connect_db_def connect_loop_connected MAX_ATTEMPTS_def)






section \<open>Properties of the report renderer and of module-query\<close>

lemma try_bind_simps:
  "try_bind (Inl e) f = Inl e"
  "try_bind (Inr x) f = f x"
  by (simp_all add: try_bind_def)

lemma report_env_fields:
  "DEBUG (report_env ts) = False"
  "json_loads (report_env ts) = loads_table report_table"
  "wrap_fill (report_env ts) = (\<lambda>w s. initial_indent w @ s)"
  "py_format (report_env ts) = (\<lambda>v spec. [])"
  "dict_order (report_env ts) = (\<lambda>ks. ks)"
  by (simp_all add: report_env_def stocked_env_def quiet_env_def)

lemma load_report_row:
  "map_of report_table t = Some br \<Longrightarrow>
   load_report (report_env ts) (report_row t) tr = (Inr br, tr)"
  by (simp add: load_report_def report_row_def row_dict_def subscript_def dict_get_def
                try_bind_simps report_env_fields loads_table_def)

lemma tables:
  "map_of report_table ''gcc/9.3.0, preferred'' = Some (complete_report ''gcc'' ''gcc/9.3.0-fasrc01'' True)"
  "map_of report_table ''gcc/8.2.0'' = Some (complete_report ''gcc'' ''gcc/8.2.0-fasrc01'' False)"
  "map_of report_table ''R/4.0.2'' = Some (complete_report ''R'' ''R/4.0.2-fasrc01'' False)"
  by (simp_all add: report_table_def)

lemma add_complete_report:
  "add_report (report_env ts) (TextWrapper True 66 6 58) st (complete_report title name preferred)
   = Inr \<lparr>apps = AList.update (PStr title)
                    \<lparr>description = PStr (''About '' @ title),
                     build_stacks =
                       AList.update (PStr ''Easy Build'')
                         ((case map_of (case map_of (apps st) (PStr title) of None \<Rightarrow> [] | Some a \<Rightarrow> build_stacks a)
                                       (PStr ''Easy Build'') of None \<Rightarrow> [] | Some ls \<Rightarrow> ls)
                          @ [replicate 6 CHR '' '' @ replicate 6 CHR '' '' @ (if preferred then ''* '' else [])
                             @ ljust_dots name @ '' tested''])
                         (case map_of (apps st) (PStr title) of None \<Rightarrow> [] | Some a \<Rightarrow> build_stacks a)\<rparr>
                    (apps st),
           moduletitle = Some (PStr name),
           buildstack = Some (PStr ''Easy Build''),
           preferredbuildexplanation = Some (if preferred then ''* denotes preferred build.'' else [])\<rparr>"
  by (simp add: add_report_def complete_report_def report_fields_def dict_get_def try_bind_simps
                hashable_def build_comments_def py_strip_def strip_def is_space_def Let_def
                vstr_of_def fmt_def fmt_dots_def fill_def TextWrapper_def report_env_fields)

lemma add_two_gcc:
  "add_reports (report_env ts) (TextWrapper True 66 6 58) no_locals
     [report_row ''gcc/9.3.0, preferred'', report_row ''gcc/8.2.0''] tr
   = (Inr \<lparr>apps = [(PStr ''gcc'',
                     \<lparr>description = PStr ''About gcc'',
                      build_stacks =
                        [(PStr ''Easy Build'',
                          [replicate 6 CHR '' '' @ replicate 6 CHR '' '' @ ''* ''
                             @ ljust_dots ''gcc/9.3.0-fasrc01'' @ '' tested'',
                           replicate 6 CHR '' '' @ replicate 6 CHR '' ''
                             @ ljust_dots ''gcc/8.2.0-fasrc01'' @ '' tested''])]\<rparr>)],
            moduletitle = Some (PStr ''gcc/8.2.0-fasrc01''),
            buildstack = Some (PStr ''Easy Build''),
            preferredbuildexplanation = Some []\<rparr>, tr)"
  by (simp add: load_report_row[OF tables(1)] load_report_row[OF tables(2)]
                add_complete_report no_locals_def)

lemma spaces:
  "replicate 6 CHR '' '' = ''      ''"
  "replicate 30 CHR '' '' = ''                              ''"
  by code_simp+

lemma dots:
  "ljust_dots ''gcc/9.3.0-fasrc01'' = ''gcc/9.3.0-fasrc01.......................''"
  "ljust_dots ''gcc/8.2.0-fasrc01'' = ''gcc/8.2.0-fasrc01.......................''"
  "ljust_dots ''R/4.0.2-fasrc01'' = ''R/4.0.2-fasrc01.........................''"
  by code_simp+

lemma printConsolidatedReport_80:
  "printConsolidatedReport env buildreports 80 tr
   = (case add_reports env (TextWrapper True 66 6 58) no_locals buildreports tr of
        (Inl e, tr1) \<Rightarrow> (Inl e, tr1)
      | (Inr st, tr1) \<Rightarrow> print_apps env 80 st (items env (apps st)) tr1)"
  by (simp add: printConsolidatedReport_def del: add_reports.simps)

lemma app_report_one_stack:
  assumes "moduletitle st = Some (PStr example)"
    and "buildstack st = Some (PStr flavor)"
    and "preferredbuildexplanation st = Some legend"
  shows "app_report (report_env ts) 80 st (PStr title)
           \<lparr>description = PStr about, build_stacks = [(PStr stack, versionlines)]\<rparr>
         = Inr (str_join NL
             [[],
              replicate 78 CHR ''-'',
              ''  '' @ title,
              replicate 78 CHR ''-'',
              ''    Description:'',
              ''      '' @ about,
              [],
              ''    Versions:'',
              str_join NL ((''      '' @ stack) # versionlines),
              [],
              [],
              ''    To find detailed information about a module, search the full name.'',
              [],
              ''      module-query '' @ example,
              [],
              ''    You may need to specify the build '' @ [CHR 0x22] @ ''flavor'' @ [CHR 0x22]
                @ '' to get a single record'',
              [],
              ''      module-query '' @ example @ '' --flavor '' @ quoted flavor,
              [],
              ''    '' @ legend,
              [],
              [],
              ''    ''])"
  using assms
  by (simp add: app_report_def Let_def items_def report_env_fields try_bind_simps fill_def
                TextWrapper_def bound_def fmt_def spaces)

lemma print_two_gcc_text:
  "printConsolidatedReport (report_env ts)
     [report_row ''gcc/9.3.0, preferred'', report_row ''gcc/8.2.0''] 80 tr
   = (Inr (),
      tr @ [Stdout (str_join NL
        [[],
         replicate 78 CHR ''-'',
         ''  gcc'',
         replicate 78 CHR ''-'',
         ''    Description:'',
         ''      About gcc'',
         [],
         ''    Versions:'',
         ''      Easy Build'',
         ''            * gcc/9.3.0-fasrc01....................... tested'',
         ''            gcc/8.2.0-fasrc01....................... tested'',
         [],
         [],
         ''    To find detailed information about a module, search the full name.'',
         [],
         ''      module-query gcc/8.2.0-fasrc01'',
         [],
         ''    You may need to specify the build '' @ [CHR 0x22] @ ''flavor'' @ [CHR 0x22] @ '' to get a single record'',
         [],
         ''      module-query gcc/8.2.0-fasrc01 --flavor '' @ quoted ''Easy Build'',
         [],
         ''    '',
         [],
         [],
         ''    ''] @ NL)])"
  unfolding printConsolidatedReport_80 add_two_gcc
  by (simp add: items_def report_env_fields app_report_one_stack dots spaces)

lemma add_R_then_gcc:
  "add_reports (report_env ts) (TextWrapper True 66 6 58) no_locals
     [report_row ''R/4.0.2'', report_row ''gcc/9.3.0, preferred''] tr
   = (Inr \<lparr>apps = [(PStr ''R'',
                     \<lparr>description = PStr ''About R'',
                      build_stacks =
                        [(PStr ''Easy Build'',
                          [replicate 6 CHR '' '' @ replicate 6 CHR '' ''
                             @ ljust_dots ''R/4.0.2-fasrc01'' @ '' tested''])]\<rparr>),
                    (PStr ''gcc'',
                     \<lparr>description = PStr ''About gcc'',
                      build_stacks =
                        [(PStr ''Easy Build'',
                          [replicate 6 CHR '' '' @ replicate 6 CHR '' '' @ ''* ''
                             @ ljust_dots ''gcc/9.3.0-fasrc01'' @ '' tested''])]\<rparr>)],
            moduletitle = Some (PStr ''gcc/9.3.0-fasrc01''),
            buildstack = Some (PStr ''Easy Build''),
            preferredbuildexplanation = Some ''* denotes preferred build.''\<rparr>, tr)"
  by (simp add: load_report_row[OF tables(3)] load_report_row[OF tables(1)]
                add_complete_report no_locals_def)

lemma print_R_then_gcc_text:
  "printConsolidatedReport (report_env ts)
     [report_row ''R/4.0.2'', report_row ''gcc/9.3.0, preferred''] 80 tr
   = (Inr (),
      tr @ [Stdout (str_join NL
        [[],
         replicate 78 CHR ''-'',
         ''  R'',
         replicate 78 CHR ''-'',
         ''    Description:'',
         ''      About R'',
         [],
         ''    Versions:'',
         ''      Easy Build'',
         ''            R/4.0.2-fasrc01......................... tested'',
         [],
         [],
         ''    To find detailed information about a module, search the full name.'',
         [],
         ''      module-query gcc/9.3.0-fasrc01'',
         [],
         ''    You may need to specify the build '' @ [CHR 0x22] @ ''flavor'' @ [CHR 0x22] @ '' to get a single record'',
         [],
         ''      module-query gcc/9.3.0-fasrc01 --flavor '' @ quoted ''Easy Build'',
         [],
         ''    * denotes preferred build.'',
         [],
         [],
         ''    ''] @ NL),
       Stdout (str_join NL
        [[],
         replicate 78 CHR ''-'',
         ''  gcc'',
         replicate 78 CHR ''-'',
         ''    Description:'',
         ''      About gcc'',
         [],
         ''    Versions:'',
         ''      Easy Build'',
         ''            * gcc/9.3.0-fasrc01....................... tested'',
         [],
         [],
         ''    To find detailed information about a module, search the full name.'',
         [],
         ''      module-query gcc/9.3.0-fasrc01'',
         [],
         ''    You may need to specify the build '' @ [CHR 0x22] @ ''flavor'' @ [CHR 0x22] @ '' to get a single record'',
         [],
         ''      module-query gcc/9.3.0-fasrc01 --flavor '' @ quoted ''Easy Build'',
         [],
         ''    * denotes preferred build.'',
         [],
         [],
         ''    ''] @ NL)])"
  unfolding printConsolidatedReport_80 add_R_then_gcc
  by (simp add: items_def report_env_fields app_report_one_stack dots spaces)

lemma tables2:
  "map_of report_table ''gcc/9.3.0 without run_dependencies''
   = Some (PDict (report_fields ''gcc'' ''gcc/9.3.0-fasrc01''
                  @ [(PStr ''comments'', PStr ''tested''), (PStr ''preferred_build'', PBool True)]))"
  "map_of report_table ''gcc/9.3.0 without preferred_build''
   = Some (PDict (report_fields ''gcc'' ''gcc/9.3.0-fasrc01''
                  @ [(PStr ''run_dependencies'', PList []), (PStr ''comments'', PStr ''tested'')]))"
  "map_of report_table ''gcc/9.3.0 without comments''
   = Some (PDict (report_fields ''gcc'' ''gcc/9.3.0-fasrc01''
                  @ [(PStr ''run_dependencies'', PList []), (PStr ''preferred_build'', PBool True)]))"
  "map_of report_table ''gcc/9.3.0, required fields only''
   = Some (PDict (report_fields ''gcc'' ''gcc/9.3.0-fasrc01''))"
  by (simp_all add: report_table_def)

lemma detail_without_run_dependencies:
  "printDetailReport (report_env ts) (report_row ''gcc/9.3.0 without run_dependencies'') 80 tr
   = (Inl (Exception KeyError (quoted ''run_dependencies'') None), tr)"
  by (simp add: printDetailReport_def load_report_row[OF tables2(1)] detail_report_def dependency_message_def comments_message_def
                build_stack_activation_message_def Let_def
                dict_get_def report_fields_def try_bind_simps)

lemma detail_required_only:
  "printDetailReport (report_env ts) (report_row ''gcc/9.3.0, required fields only'') 80 tr
   = (Inl (Exception KeyError (quoted ''run_dependencies'') None), tr)"
  by (simp add: printDetailReport_def load_report_row[OF tables2(4)] detail_report_def dependency_message_def comments_message_def
                build_stack_activation_message_def Let_def
                dict_get_def report_fields_def try_bind_simps)

lemma consolidated_without_preferred_build:
  "printConsolidatedReport (report_env ts)
     [report_row ''gcc/9.3.0 without preferred_build'', report_row ''gcc/8.2.0''] 80 tr
   = (Inl (Exception KeyError (quoted ''preferred_build'') None), tr)"
  unfolding printConsolidatedReport_80
  by (simp add: load_report_row[OF tables2(2)] add_report_def dict_get_def report_fields_def
                try_bind_simps hashable_def build_comments_def py_strip_def strip_def
                is_space_def)

lemma detail_without_comments:
  "printDetailReport (report_env ts) (report_row ''gcc/9.3.0 without comments'') 80 tr
   = (Inr (),
      tr @ [Stdout (str_join NL
              [[],
               replicate 78 CHR ''-'',
               ''  gcc : gcc/9.3.0-fasrc01'',
               replicate 78 CHR ''-'',
               ''    Build flavor: Easy Build'',
               ''    Description:'',
               ''      About gcc'',
               [],
               ''    This module can be loaded as follows:'',
               ''      module load gcc/9.3.0-fasrc01'',
               [],
               [],
               [],
               []] @ NL)])"
  by (simp add: printDetailReport_def load_report_row[OF tables2(3)] detail_report_def dependency_message_def comments_message_def
                build_stack_activation_message_def Let_def
                dict_get_def report_fields_def try_bind_simps build_comments_def fill_def
                TextWrapper_def report_env_fields fmt_def py_reindent_def reindent_def spaces
                NL_def)



lemma query_main_one_row:
  assumes "fetchBuildReports env (query_build_name args) (split_flavors (query_build_stacks args))
             (query_full_text args) (tr @ announcements args) = (Inr [row], tr3)"
    and "getTerminalSize env = Inr columns"
  shows "query_main env args tr
         = handle env (query_program_name args)
             (case printDetailReport env row columns tr3 of
                (Inl e, tr4) \<Rightarrow> (Inl e, tr4)
              | (Inr u, tr4) \<Rightarrow> (Inr 0, tr4))"
  using assms by (simp add: query_main_def query_body_def Let_def)



lemma query_gcc_fields:
  "query_program_name query_gcc = ''module-query''"
  "query_verbose query_gcc = None"
  "query_build_stacks query_gcc = ''Easy Build''"
  "query_full_text query_gcc = False"
  "query_build_name query_gcc = ''gcc''"
  "announcements query_gcc = []"
  "split_flavors ''Easy Build'' = [''Easy Build'']"
  by (simp_all add: query_gcc_def announcements_def positive_def split_flavors_def re_space_def)

lemma report_env_world:
  "db_connect (report_env ts) = (\<lambda>tr. Inr 1)"
  "db_execute (report_env ts) = (\<lambda>tr c sql ps. Inr ([''report_text''], map (\<lambda>t. [PStr t]) ts))"
  "getTerminalSize (report_env ts) = Inr 80"
  by (simp_all add: report_env_def stocked_env_def quiet_env_def getTerminalSize_def)

lemma fetch_report_env:
  "fetchBuildReports (report_env ts) (query_build_name query_gcc)
     (split_flavors (query_build_stacks query_gcc)) (query_full_text query_gcc)
     ([] @ announcements query_gcc)
   = (Inr (map report_row ts),
      [Connect, Execute 1 (report_sql False [''Easy Build'']) [''%gcc%'', ''Easy Build'']])"
  by (simp add: query_gcc_fields fetchBuildReports_def run_query_def connect_db_first
                report_env_world report_env_fields wheres_of_def like_term_def report_row_def
                comp_def)



lemma detail_report_needs_run_dependencies:
  assumes "map_of d (PStr ''run_dependencies'') = None"
  shows "\<exists>e. detail_report env (PDict d) terminalsize = Inl e"
  using assms
  by (cases "map_of d (PStr ''title'')")
     (simp_all add: detail_report_def dependency_message_def comments_message_def
                build_stack_activation_message_def Let_def dict_get_def try_bind_simps)

lemma add_report_needs_preferred_build:
  assumes "map_of d (PStr ''preferred_build'') = None"
  shows "\<exists>e. add_report env versionwrapper st (PDict d) = Inl e"
  using assms
  by (auto simp: add_report_def Let_def dict_get_def try_bind_def split: option.splits sum.splits)

lemma report_env_format_exc: "format_exc (report_env ts) e = []"
  by (simp add: report_env_def stocked_env_def quiet_env_def)

section \<open>The claims about the query builder and the connection manager\<close>

text \<open>
  C1. For a list of N flavor names and any search string, the template of
  \<^verbatim>\<open>fetchBuildReports\<close> (in name and in full-text mode) and the one of
  \<^verbatim>\<open>fetchBuildActivation\<close> have exactly N placeholders \<^verbatim>\<open>%s\<close> in their IN-clause and N+1
  in all, and the parameter list has N+1 entries: the search term between two percent
  signs first, then the N names in their order. Whatever query a fetch executes is this
  template with these parameters. (This holds for N = 0 too.)
\<close>

theorem placeholders_match_parameters:
  "placeholders (in_clause_of (report_sql fulltext names)) = length names
   \<and> placeholders (in_clause_of (build_sql names)) = length names
   \<and> placeholders (report_sql fulltext names) = length names + 1
   \<and> placeholders (build_sql names) = length names + 1
   \<and> wheres_of search names = (''%'' @ search @ ''%'') # names
   \<and> length (wheres_of search names) = length names + 1
   \<and> (\<forall>(c, sql, ps) \<in> set (executes (snd (fetchBuildReports env search names fulltext []))).
         sql = report_sql fulltext names \<and> ps = wheres_of search names)
   \<and> (\<forall>(c, sql, ps) \<in> set (executes (snd (fetchBuildActivation env search names []))).
         sql = build_sql names \<and> ps = wheres_of search names)"
proof -
  have "placeholders (in_clause_of (report_sql fulltext names)) = length names"
    by (simp add: report_sql_def in_clause_name in_clause_fulltext placeholders_format)
  moreover have "placeholders (in_clause_of (build_sql names)) = length names"
    by (simp add: build_sql_def in_clause_activation placeholders_format)
  moreover have "placeholders (report_sql fulltext names) = length names + 1"
    by (simp add: report_sql_def placeholders_name placeholders_fulltext)
  moreover have "placeholders (build_sql names) = length names + 1"
    by (simp add: build_sql_def placeholders_activation)
  moreover have "wheres_of search names = (''%'' @ search @ ''%'') # names"
    by (simp add: wheres_of_def like_term_def)
  moreover have "length (wheres_of search names) = length names + 1"
    by (simp add: wheres_of_def)
  moreover have "\<forall>(c, sql, ps) \<in> set (executes (snd (fetchBuildReports env search names fulltext []))).
         sql = report_sql fulltext names \<and> ps = wheres_of search names"
    using executes_fetchBuildReports by blast
  moreover have "\<forall>(c, sql, ps) \<in> set (executes (snd (fetchBuildActivation env search names []))).
         sql = build_sql names \<and> ps = wheres_of search names"
    using executes_fetchBuildActivation by blast
  ultimately show ?thesis by blast
qed

theorem placeholders_match_parameters_witness:
  "executes (snd (fetchBuildReports quiet_env ''gcc'' [''Easy Build'', ''Java''] False []))
     = [(1, report_sql False [''Easy Build'', ''Java''], [''%gcc%'', ''Easy Build'', ''Java''])]
   \<and> executes (snd (fetchBuildActivation quiet_env ''gcc'' [''Easy Build'', ''Java''] []))
     = [(1, build_sql [''Easy Build'', ''Java''], [''%gcc%'', ''Easy Build'', ''Java''])]
   \<and> in_clause_of (report_sql False [''Easy Build'', ''Java'']) = ''%s,%s''
   \<and> placeholders (in_clause_of (report_sql False [''Easy Build'', ''Java''])) = 2
   \<and> placeholders (in_clause_of (build_sql [''Easy Build'', ''Java''])) = 2"
proof -
  have q: "DEBUG quiet_env = False"
    and x: "db_execute quiet_env = (\<lambda>tr c sql ps. Inr ([], []))"
    by (simp_all add: quiet_env_def)
  have 1: "executes (snd (fetchBuildReports quiet_env ''gcc'' [''Easy Build'', ''Java''] False []))
     = [(1, report_sql False [''Easy Build'', ''Java''], [''%gcc%'', ''Easy Build'', ''Java''])]"
    by (simp add: fetchBuildReports_def run_query_def connect_db_quiet q x wheres_of_def like_term_def)
  have 2: "executes (snd (fetchBuildActivation quiet_env ''gcc'' [''Easy Build'', ''Java''] []))
     = [(1, build_sql [''Easy Build'', ''Java''], [''%gcc%'', ''Easy Build'', ''Java''])]"
    by (simp add: fetchBuildActivation_def run_query_def connect_db_quiet q x wheres_of_def like_term_def)
  have f: "format_strings [''Easy Build'', ''Java''] = ''%s,%s''"
    by (simp add: format_strings_def)
  have 3: "in_clause_of (report_sql False [''Easy Build'', ''Java'']) = ''%s,%s''"
    by (simp only: report_sql_def Let_def if_False in_clause_name) (rule f)
  note T = placeholders_match_parameters[of False "[''Easy Build'', ''Java'']" "''gcc''" quiet_env]
  have 4: "placeholders (in_clause_of (report_sql False [''Easy Build'', ''Java''])) = 2"
    using T[THEN conjunct1] by simp
  have 5: "placeholders (in_clause_of (build_sql [''Easy Build'', ''Java''])) = 2"
    using T[THEN conjunct2, THEN conjunct1] by simp
  show ?thesis
    using 1 2 3 4 5 by (intro conjI)
qed

text \<open>
  C8. Two calls of the query builder with the same number of flavor names and the same
  full-text flag produce the same template text, whatever the search strings and the
  names are, and so do the queries that two fetches execute: the values only travel in
  the parameter list.
\<close>

theorem sql_text_independent_of_values:
  assumes "length names = length names'"
  shows "report_sql fulltext names = report_sql fulltext names'
         \<and> build_sql names = build_sql names'
         \<and> (\<forall>(c, sql, ps) \<in> set (executes (snd (fetchBuildReports env search names fulltext []))).
            \<forall>(c', sql', ps') \<in> set (executes (snd (fetchBuildReports env' search' names' fulltext []))).
              sql = sql')
         \<and> (\<forall>(c, sql, ps) \<in> set (executes (snd (fetchBuildActivation env search names []))).
            \<forall>(c', sql', ps') \<in> set (executes (snd (fetchBuildActivation env' search' names' []))).
              sql = sql')"
proof -
  have f: "format_strings names = format_strings names'"
    using assms by (simp add: format_strings_def)
  have r: "report_sql fulltext names = report_sql fulltext names'"
    by (simp add: report_sql_def f)
  have b: "build_sql names = build_sql names'"
    by (simp add: build_sql_def f)
  have "\<forall>(c, sql, ps) \<in> set (executes (snd (fetchBuildReports env search names fulltext []))).
        \<forall>(c', sql', ps') \<in> set (executes (snd (fetchBuildReports env' search' names' fulltext []))).
          sql = sql'"
    using r executes_fetchBuildReports by fastforce
  moreover have "\<forall>(c, sql, ps) \<in> set (executes (snd (fetchBuildActivation env search names []))).
        \<forall>(c', sql', ps') \<in> set (executes (snd (fetchBuildActivation env' search' names' []))).
          sql = sql'"
    using b executes_fetchBuildActivation by fastforce
  ultimately show ?thesis using r b by blast
qed

theorem sql_text_independent_of_values_witness:
  "length [''Easy Build'', ''Java''] = length [''x) or 1=1 --'', ''y'']
   \<and> report_sql True [''Easy Build'', ''Java''] = report_sql True [''x) or 1=1 --'', ''y'']
   \<and> build_sql [''Easy Build'', ''Java''] = build_sql [''x) or 1=1 --'', ''y'']
   \<and> map (fst \<circ> snd) (executes (snd (fetchBuildReports quiet_env ''gcc'' [''Easy Build'', ''Java''] True [])))
     = map (fst \<circ> snd) (executes (snd (fetchBuildReports quiet_env ''%; drop table build'' [''x) or 1=1 --'', ''y''] True [])))
   \<and> executes (snd (fetchBuildReports quiet_env ''%; drop table build'' [''x) or 1=1 --'', ''y''] True []))
     = [(1, report_sql True [''Easy Build'', ''Java''], [''%%; drop table build%'', ''x) or 1=1 --'', ''y''])]"
proof -
  have l: "length [''Easy Build'', ''Java''] = length [''x) or 1=1 --'', ''y'']"
    by simp
  have q: "DEBUG quiet_env = False"
    and x: "db_execute quiet_env = (\<lambda>tr c sql ps. Inr ([], []))"
    by (simp_all add: quiet_env_def)
  have 1: "executes (snd (fetchBuildReports quiet_env ''gcc'' [''Easy Build'', ''Java''] True []))
     = [(1, report_sql True [''Easy Build'', ''Java''], [''%gcc%'', ''Easy Build'', ''Java''])]"
    by (simp add: fetchBuildReports_def run_query_def connect_db_quiet q x wheres_of_def like_term_def)
  have 2: "executes (snd (fetchBuildReports quiet_env ''%; drop table build'' [''x) or 1=1 --'', ''y''] True []))
     = [(1, report_sql True [''x) or 1=1 --'', ''y''], [''%%; drop table build%'', ''x) or 1=1 --'', ''y''])]"
    by (simp add: fetchBuildReports_def run_query_def connect_db_quiet q x wheres_of_def like_term_def)
  show ?thesis
    using sql_text_independent_of_values[OF l, of True quiet_env "''gcc''" quiet_env "''%; drop table build''"]
          1 2
    by simp
qed

text \<open>
  C2. The connection manager makes at most three attempts. When the database answers the
  k-th attempt of a run with \<open>outcome k\<close>: if the first three attempts fail, the
  manager raises the exception whose user message is "Unable to connect to" followed by
  the configured host, after exactly three attempts; if attempt k+1 (counting from 0, so
  one of the first three) is the first to succeed, the manager returns its connection
  after exactly k+1 attempts. The exception is a plain \<^verbatim>\<open>Exception\<close> that carries the
  attribute \<^verbatim>\<open>user_msg\<close>.
\<close>

theorem at_most_three_attempts:
  assumes "\<forall>h. db_connect env h = outcome (connects h)" and "connects tr = 0"
  shows "connects (snd (connect_db env tr)) \<le> 3
         \<and> ((\<forall>k<3. failed (outcome k)) \<longrightarrow>
              fst (connect_db env tr)
                = Inl (Exception BareException [] (Some (''Unable to connect to '' @ SQL_DSN_host env)))
              \<and> connects (snd (connect_db env tr)) = 3)
         \<and> (\<forall>k c. k < 3 \<and> (\<forall>j<k. failed (outcome j)) \<and> outcome k = Inr c \<longrightarrow>
              fst (connect_db env tr) = Inr c \<and> connects (snd (connect_db env tr)) = k + 1)"
proof (intro conjI impI allI)
  show "connects (snd (connect_db env tr)) \<le> 3"
    using connects_connect_db_le[of env tr] assms(2) by simp
next
  assume f: "\<forall>k<3. failed (outcome k)"
  show "fst (connect_db env tr)
          = Inl (Exception BareException [] (Some (''Unable to connect to '' @ SQL_DSN_host env)))"
    using assms f by (rule connect_db_exhausted(1))
  have "connects (timeline (snd (connect_db env tr)))
        = connects (timeline tr @ [Connect, Sleep 2, Connect, Sleep 2, Connect, Sleep 2])"
    using connect_db_exhausted(2)[OF assms f] by simp
  then show "connects (snd (connect_db env tr)) = 3"
    using assms(2) by (simp add: connects_timeline connects_append)
next
  fix k c
  assume "k < 3 \<and> (\<forall>j<k. failed (outcome j)) \<and> outcome k = Inr c"
  then have "fst (connect_db env tr) = Inr c \<and> connects (snd (connect_db env tr)) = k + 1"
    using connect_db_succeeds[OF assms, of k c] by blast
  then show "fst (connect_db env tr) = Inr c" and "connects (snd (connect_db env tr)) = k + 1"
    by simp_all
qed

theorem at_most_three_attempts_witness:
  "(\<forall>h. db_connect refusing_env h
         = (if connects h < 3 then Inl (Exception LibraryError ''cannot connect'' None) else Inr 5))
   \<and> fst (connect_db refusing_env [])
       = Inl (Exception BareException [] (Some ''Unable to connect to rcdb-internal''))
   \<and> connects (snd (connect_db refusing_env [])) = 3
   \<and> (\<forall>h. db_connect second_try_env h
         = (if connects h = 1 then Inr 7 else Inl (Exception LibraryError ''cannot connect'' None)))
   \<and> fst (connect_db second_try_env []) = Inr 7
   \<and> connects (snd (connect_db second_try_env [])) = 2"
proof -
  let ?down = "\<lambda>n::nat. if n < 3 then Inl (Exception LibraryError ''cannot connect'' None)
                        else (Inr 5 :: exn + conn)"
  let ?second = "\<lambda>n::nat. if n = 1 then (Inr 7 :: exn + conn)
                          else Inl (Exception LibraryError ''cannot connect'' None)"
  have c: "connects [] = 0"
    by simp
  have h1: "\<forall>h. db_connect refusing_env h = ?down (connects h)"
    by (simp add: refusing_env_def)
  have h2: "\<forall>h. db_connect second_try_env h = ?second (connects h)"
    by (simp add: second_try_env_def)
  have f1: "\<forall>k<3. failed (?down k)"
    by simp
  have host: "SQL_DSN_host refusing_env = ''rcdb-internal''"
    by (simp add: refusing_env_def quiet_env_def)
  have r1: "fst (connect_db refusing_env [])
              = Inl (Exception BareException [] (Some ''Unable to connect to rcdb-internal''))
            \<and> connects (snd (connect_db refusing_env [])) = 3"
    using at_most_three_attempts[OF h1 c, THEN conjunct2, THEN conjunct1] f1 host by simp
  have f2: "(1::nat) < 3 \<and> (\<forall>j<1. failed (?second j)) \<and> ?second 1 = Inr 7"
    by simp
  have r2: "fst (connect_db second_try_env []) = Inr 7
            \<and> connects (snd (connect_db second_try_env [])) = 1 + 1"
    using at_most_three_attempts[OF h2 c, THEN conjunct2, THEN conjunct2] f2 by blast
  show ?thesis
    using h1 h2 r1 r2 by simp
qed

text \<open>
  C9. The wait of two time units follows every failed attempt, the last one too: when
  the first three attempts of a run fail, the attempts and the waits alternate, three of
  each, the waits add up to six time units, and the exception is raised after the third
  wait.
\<close>

theorem wait_after_every_failure:
  assumes "\<forall>h. db_connect env h = outcome (connects h)"
    and "timeline tr = []"
    and "\<forall>k<3. failed (outcome k)"
  shows "timeline (snd (connect_db env tr)) = [Connect, Sleep 2, Connect, Sleep 2, Connect, Sleep 2]
         \<and> sleeps (snd (connect_db env tr)) = [2, 2, 2]
         \<and> sum_list (sleeps (snd (connect_db env tr))) = 6
         \<and> fst (connect_db env tr)
             = Inl (Exception BareException [] (Some (''Unable to connect to '' @ SQL_DSN_host env)))"
proof -
  have c: "connects tr = 0" using assms(2) by (rule connects_timeline_Nil)
  have t: "timeline (snd (connect_db env tr)) = [Connect, Sleep 2, Connect, Sleep 2, Connect, Sleep 2]"
    using connect_db_exhausted(2)[OF assms(1) c assms(3)] assms(2) by simp
  have "sleeps (timeline (snd (connect_db env tr))) = [2, 2, 2]"
    unfolding t by simp
  then have s: "sleeps (snd (connect_db env tr)) = [2, 2, 2]"
    by (simp add: sleeps_timeline)
  show ?thesis
    using t s connect_db_exhausted(1)[OF assms(1) c assms(3)] by simp
qed

theorem wait_after_every_failure_witness:
  "timeline [] = []
   \<and> (\<forall>h. db_connect refusing_env h
         = (if connects h < 3 then Inl (Exception LibraryError ''cannot connect'' None) else Inr 5))
   \<and> timeline (snd (connect_db refusing_env []))
       = [Connect, Sleep 2, Connect, Sleep 2, Connect, Sleep 2]
   \<and> sum_list (sleeps (snd (connect_db refusing_env []))) = 6"
proof -
  let ?down = "\<lambda>n::nat. if n < 3 then Inl (Exception LibraryError ''cannot connect'' None)
                        else (Inr 5 :: exn + conn)"
  have t: "timeline [] = []"
    by simp
  have h: "\<forall>h. db_connect refusing_env h = ?down (connects h)"
    by (simp add: refusing_env_def)
  have f: "\<forall>k<3. failed (?down k)"
    by simp
  note T = wait_after_every_failure[OF h t f]
  show ?thesis
    using h T[THEN conjunct1] T[THEN conjunct2, THEN conjunct2, THEN conjunct1] by simp
qed


section \<open>The claims about the flavor list and the activation verifier\<close>

text \<open>
  C7, as the code has it. Nothing checks the flavor list and no query error exists: for
  an empty list both fetch functions build the template with the empty IN-clause and the
  search term as the only parameter, and with a database that accepts the connection
  they execute it and return whatever the database answers. The two mains never pass an
  empty list, because splitting the text of \<^verbatim>\<open>--flavors\<close> always gives at least one name
  (the empty one for an empty text).
\<close>

theorem empty_flavor_list_is_not_rejected:
  assumes "\<forall>h. db_connect env h = Inr c"
    and "\<forall>h sql ps. db_execute env h c sql ps = answer"
  shows "split_flavors flavors \<noteq> []
         \<and> in_clause_of (report_sql fulltext []) = []
         \<and> in_clause_of (build_sql []) = []
         \<and> executes (snd (fetchBuildReports env search [] fulltext []))
             = [(c, report_sql fulltext [], [''%'' @ search @ ''%''])]
         \<and> executes (snd (fetchBuildActivation env search [] []))
             = [(c, build_sql [], [''%'' @ search @ ''%''])]
         \<and> fst (fetchBuildReports env search [] fulltext [])
             = (case answer of Inl e \<Rightarrow> Inl e | Inr (cols, rows) \<Rightarrow> Inr (map (row_dict cols) rows))
         \<and> fst (fetchBuildActivation env search [] [])
             = (case answer of Inl e \<Rightarrow> Inl e | Inr (cols, rows) \<Rightarrow> Inr (map (row_dict cols) rows))"
proof -
  have 1: "in_clause_of (report_sql fulltext []) = []"
    using in_clause_name[of "[]"] in_clause_fulltext[of "[]"]
    by (simp add: report_sql_def format_strings_def)
  have 2: "in_clause_of (build_sql []) = []"
    using in_clause_activation[of "[]"] by (simp add: build_sql_def format_strings_def)
  have 3: "executes (snd (fetchBuildReports env search [] fulltext []))
             = [(c, report_sql fulltext [], [''%'' @ search @ ''%''])]"
    using executes_run_query_accepting[OF assms(1)]
    by (cases "DEBUG env") (simp_all add: fetchBuildReports_def wheres_of_def like_term_def)
  have 4: "executes (snd (fetchBuildActivation env search [] []))
             = [(c, build_sql [], [''%'' @ search @ ''%''])]"
    using executes_run_query_accepting[OF assms(1)]
    by (cases "DEBUG env") (simp_all add: fetchBuildActivation_def wheres_of_def like_term_def)
  have 5: "fst (fetchBuildReports env search [] fulltext [])
             = (case answer of Inl e \<Rightarrow> Inl e | Inr (cols, rows) \<Rightarrow> Inr (map (row_dict cols) rows))"
    using fst_run_query_accepting[OF assms]
    by (simp add: fetchBuildReports_def Let_def)
  have 6: "fst (fetchBuildActivation env search [] [])
             = (case answer of Inl e \<Rightarrow> Inl e | Inr (cols, rows) \<Rightarrow> Inr (map (row_dict cols) rows))"
    using fst_run_query_accepting[OF assms]
    by (simp add: fetchBuildActivation_def Let_def)
  show ?thesis using split_flavors_nonempty 1 2 3 4 5 6 by (intro conjI)
qed

theorem empty_flavor_list_is_not_rejected_witness:
  "(\<forall>h. db_connect quiet_env h = Inr 1)
   \<and> (\<forall>h sql ps. db_execute quiet_env h 1 sql ps = Inr ([], []))
   \<and> split_flavors [] = [[]]
   \<and> executes (snd (fetchBuildReports quiet_env ''gcc'' [] True []))
       = [(1, report_sql True [], [''%gcc%''])]
   \<and> fst (fetchBuildReports quiet_env ''gcc'' [] True []) = Inr []"
proof -
  have c: "\<forall>h. db_connect quiet_env h = Inr 1"
    by (simp add: quiet_env_def)
  have x: "\<forall>h sql ps. db_execute quiet_env h 1 sql ps = Inr ([], [])"
    by (simp add: quiet_env_def)
  note T = empty_flavor_list_is_not_rejected[OF c x, of "[]" True "''gcc''"]
  have s: "split_flavors [] = [[]]"
    by (simp add: split_flavors_def)
  have e: "executes (snd (fetchBuildReports quiet_env ''gcc'' [] True []))
       = [(1, report_sql True [], [''%gcc%''])]"
    using T[THEN conjunct2, THEN conjunct2, THEN conjunct2, THEN conjunct1] by simp
  have f: "fst (fetchBuildReports quiet_env ''gcc'' [] True []) = Inr []"
    using T[THEN conjunct2, THEN conjunct2, THEN conjunct2, THEN conjunct2, THEN conjunct2,
            THEN conjunct1]
    by simp
  show ?thesis using c x s e f by (intro conjI)
qed

text \<open>
  C7, as the specification states it, fails: called with an empty flavor list,
  \<^verbatim>\<open>fetchBuildReports\<close> connects and executes the query whose IN-clause is empty, and
  returns the rows without raising anything.
\<close>

theorem empty_flavor_list_counterexample:
  "fetchBuildReports quiet_env ''gcc'' [] False []
     = (Inr [], [Connect, Execute 1 (name_sql []) [''%gcc%'']])
   \<and> in_clause_of (name_sql []) = []
   \<and> placeholders (in_clause_of (name_sql [])) = 0"
proof -
  have "in_clause_of (name_sql (format_strings [])) = format_strings []"
    by (rule in_clause_name)
  then have i: "in_clause_of (name_sql []) = []"
    by (simp add: format_strings_def)
  have "fetchBuildReports quiet_env ''gcc'' [] False []
     = (Inr [], [Connect, Execute 1 (name_sql []) [''%gcc%'']])"
    by (simp add: fetchBuildReports_def run_query_def connect_db_quiet quiet_env_fields
                  report_sql_def format_strings_def wheres_of_def like_term_def row_dict_def)
  then show ?thesis using i by simp
qed





section \<open>The claims about module-query and its reports\<close>



text \<open>
  C4 fails on the code. The text of the legend is set anew for every row of the first
  loop and read after the loop, so every block gets the legend of the last row of the
  whole result. First run: gcc/9.3.0 is the preferred build and its line starts with
  the star, gcc/8.2.0 comes last and is not preferred, and the legend line of the block
  of gcc is blank. Second run: R/4.0.2 is not preferred, gcc/9.3.0 comes last and is
  preferred, and the block of R, which has no line with a star, carries the legend.
  (The wrapper of these runs never breaks a line, which is what \<^verbatim>\<open>TextWrapper\<close> does
  with lines this short at 80 columns.)
\<close>

theorem legend_follows_last_row:
  "printConsolidatedReport (report_env [])
     [report_row ''gcc/9.3.0, preferred'', report_row ''gcc/8.2.0''] 80 []
   = (Inr (),
      [Stdout (str_join NL
        [[],
         replicate 78 CHR ''-'',
         ''  gcc'',
         replicate 78 CHR ''-'',
         ''    Description:'',
         ''      About gcc'',
         [],
         ''    Versions:'',
         ''      Easy Build'',
         ''            * gcc/9.3.0-fasrc01....................... tested'',
         ''            gcc/8.2.0-fasrc01....................... tested'',
         [],
         [],
         ''    To find detailed information about a module, search the full name.'',
         [],
         ''      module-query gcc/8.2.0-fasrc01'',
         [],
         ''    You may need to specify the build '' @ [CHR 0x22] @ ''flavor'' @ [CHR 0x22] @ '' to get a single record'',
         [],
         ''      module-query gcc/8.2.0-fasrc01 --flavor '' @ quoted ''Easy Build'',
         [],
         ''    '',
         [],
         [],
         ''    ''] @ NL)])
   \<and> printConsolidatedReport (report_env [])
     [report_row ''R/4.0.2'', report_row ''gcc/9.3.0, preferred''] 80 []
   = (Inr (),
      [Stdout (str_join NL
        [[],
         replicate 78 CHR ''-'',
         ''  R'',
         replicate 78 CHR ''-'',
         ''    Description:'',
         ''      About R'',
         [],
         ''    Versions:'',
         ''      Easy Build'',
         ''            R/4.0.2-fasrc01......................... tested'',
         [],
         [],
         ''    To find detailed information about a module, search the full name.'',
         [],
         ''      module-query gcc/9.3.0-fasrc01'',
         [],
         ''    You may need to specify the build '' @ [CHR 0x22] @ ''flavor'' @ [CHR 0x22] @ '' to get a single record'',
         [],
         ''      module-query gcc/9.3.0-fasrc01 --flavor '' @ quoted ''Easy Build'',
         [],
         ''    * denotes preferred build.'',
         [],
         [],
         ''    ''] @ NL),
       Stdout (str_join NL
        [[],
         replicate 78 CHR ''-'',
         ''  gcc'',
         replicate 78 CHR ''-'',
         ''    Description:'',
         ''      About gcc'',
         [],
         ''    Versions:'',
         ''      Easy Build'',
         ''            * gcc/9.3.0-fasrc01....................... tested'',
         [],
         [],
         ''    To find detailed information about a module, search the full name.'',
         [],
         ''      module-query gcc/9.3.0-fasrc01'',
         [],
         ''    You may need to specify the build '' @ [CHR 0x22] @ ''flavor'' @ [CHR 0x22] @ '' to get a single record'',
         [],
         ''      module-query gcc/9.3.0-fasrc01 --flavor '' @ quoted ''Easy Build'',
         [],
         ''    * denotes preferred build.'',
         [],
         [],
         ''    ''] @ NL)])"
  using print_two_gcc_text[of "[]" "[]"] print_R_then_gcc_text[of "[]" "[]"]
  by (simp only: append_Nil)

text \<open>
  C5 fails on the code. \<^verbatim>\<open>printDetailReport\<close> reads \<^verbatim>\<open>br["run_dependencies"]\<close> and
  \<^verbatim>\<open>printConsolidatedReport\<close> reads \<^verbatim>\<open>br["preferred_build"]\<close> without the test for the key
  that guards \<^verbatim>\<open>comments\<close>: a report with title, name, description, activation and build
  stack makes the first raise \<^verbatim>\<open>KeyError\<close> when it has no \<^verbatim>\<open>run_dependencies\<close> (with or
  without the other optional fields) and the second when it has no \<^verbatim>\<open>preferred_build\<close>,
  whereas a report without \<^verbatim>\<open>comments\<close> is printed. On the command line the first case
  ends with exit code 2 and the key as the message.
\<close>

theorem absent_fields_raise_KeyError:
  "printDetailReport (report_env []) (report_row ''gcc/9.3.0 without run_dependencies'') 80 []
     = (Inl (Exception KeyError (quoted ''run_dependencies'') None), [])
   \<and> printDetailReport (report_env []) (report_row ''gcc/9.3.0, required fields only'') 80 []
     = (Inl (Exception KeyError (quoted ''run_dependencies'') None), [])
   \<and> printConsolidatedReport (report_env [])
       [report_row ''gcc/9.3.0 without preferred_build'', report_row ''gcc/8.2.0''] 80 []
     = (Inl (Exception KeyError (quoted ''preferred_build'') None), [])
   \<and> fst (printDetailReport (report_env []) (report_row ''gcc/9.3.0 without comments'') 80 [])
     = Inr ()
   \<and> query_main (report_env [''gcc/9.3.0 without run_dependencies'']) query_gcc []
     = (2, [Connect, Execute 1 (report_sql False [''Easy Build'']) [''%gcc%'', ''Easy Build''],
            Stderr (''module-query: '' @ quoted ''run_dependencies'' @ NL),
            Stderr (''  for help use --help'' @ NL)])"
proof -
  have f: "fetchBuildReports (report_env [''gcc/9.3.0 without run_dependencies''])
              (query_build_name query_gcc)
              (split_flavors (query_build_stacks query_gcc)) (query_full_text query_gcc)
              ([] @ announcements query_gcc)
            = (Inr [report_row ''gcc/9.3.0 without run_dependencies''],
               [Connect, Execute 1 (report_sql False [''Easy Build'']) [''%gcc%'', ''Easy Build'']])"
    using fetch_report_env[of "[''gcc/9.3.0 without run_dependencies'']"] by simp
  have m: "query_main (report_env [''gcc/9.3.0 without run_dependencies'']) query_gcc []
     = (2, [Connect, Execute 1 (report_sql False [''Easy Build'']) [''%gcc%'', ''Easy Build''],
            Stderr (''module-query: '' @ quoted ''run_dependencies'' @ NL),
            Stderr (''  for help use --help'' @ NL)])"
    by (simp add: query_main_one_row[OF f report_env_world(3)] detail_without_run_dependencies
                  handle_def report_env_format_exc query_gcc_fields)
  have c: "fst (printDetailReport (report_env []) (report_row ''gcc/9.3.0 without comments'') 80 [])
           = Inr ()"
    by (simp add: detail_without_comments)
  show ?thesis
    using detail_without_run_dependencies[of "[]" "[]"] detail_required_only[of "[]" "[]"]
          consolidated_without_preferred_build[of "[]" "[]"] c m
    by (intro conjI)
qed

end
